theory Spec2Isabelle
  imports Complex_Main "HOL-Library.Log_Nat"
begin

section \<open>The arithmetic of \<open>double\<close>\<close>

text \<open>
  Every quantity the timers compute is a C++ \<open>double\<close>. The timers are embedded over an
  arbitrary carrier \<open>'d\<close> together with the operations the source applies to it: the
  conversion of an integer (\<open>static_cast<double>\<close>, the usual arithmetic conversions and
  the integer literals \<open>1\<close>, \<open>60\<close>, \<open>1000\<close>, ... which are all exactly representable), the
  four arithmetic operators and the comparisons \<open>>=\<close>, \<open><\<close> and \<open>==\<close>. A theorem stated for
  every \<open>fp\<close> holds whatever the rounding of these operators is. Two instances follow:
  \<open>exact\<close>, the arithmetic of the reals, and \<open>ieee_double\<close>, IEEE 754 binary64.
\<close>

record 'd fpu =
  cvt :: "int \<Rightarrow> 'd"
  fadd :: "'d \<Rightarrow> 'd \<Rightarrow> 'd"
  fsub :: "'d \<Rightarrow> 'd \<Rightarrow> 'd"
  fmul :: "'d \<Rightarrow> 'd \<Rightarrow> 'd"
  fdiv :: "'d \<Rightarrow> 'd \<Rightarrow> 'd"
  fge :: "'d \<Rightarrow> 'd \<Rightarrow> bool"
  flt :: "'d \<Rightarrow> 'd \<Rightarrow> bool"
  feq :: "'d \<Rightarrow> 'd \<Rightarrow> bool"

text \<open>
  The idealisation: unrounded arithmetic on the reals. Division by zero has no meaning
  here (HOL gives \<open>x / 0 = 0\<close>), so every theorem about \<open>exact\<close> that divides by the counter
  frequency assumes the frequency positive.
\<close>

definition exact :: "real fpu" where
  "exact = \<lparr>cvt = real_of_int, fadd = (+), fsub = (-), fmul = (*), fdiv = (/),
     fge = (\<lambda>a b. b \<le> a), flt = (<), feq = (=)\<rparr>"

section \<open>Assertions\<close>

text \<open>
  \<open>assert\<close> aborts the program in a debug build and is compiled out when \<open>NDEBUG\<close> is
  defined. The flag \<open>ndebug\<close> is the build mode; an operation that can run into an assertion
  returns \<open>Inl AssertionFailed\<close> where the debug build aborts.
\<close>

datatype failure = AssertionFailed

section \<open>PerformanceTimer98, the Windows version\<close>

text \<open>
  \<open>LARGE_INTEGER::QuadPart\<close> is a signed 64-bit count of ticks. The counter starts at zero
  when the machine boots, so readings are non-negative and the difference of two readings
  is in range: the counts are embedded as \<open>int\<close>.
\<close>

record 'd PerformanceTimer98_win =
  m_perSecond_win :: int
  m_startTime_win :: int
  m_stopTime_win :: int
  m_perMillisecond_win :: 'd
  m_interval_win :: 'd
  m_valid_win :: bool

text \<open>
  The constructor. \<open>ok\<close> and \<open>freq\<close> are what \<open>QueryPerformanceFrequency\<close> returns and
  writes into \<open>m_perSecond\<close>.
\<close>

definition PerformanceTimer98_win :: "'d fpu \<Rightarrow> bool \<Rightarrow> int \<Rightarrow> 'd PerformanceTimer98_win" where
  "PerformanceTimer98_win fp ok freq =
     \<lparr>m_perSecond_win = freq,
      m_startTime_win = 0,
      m_stopTime_win = 0,
      m_perMillisecond_win = fdiv fp (cvt fp freq) (cvt fp 1000),
      m_interval_win = fdiv fp (cvt fp freq) (cvt fp 60),
      m_valid_win = ok\<rparr>"

definition IsSupportedPlatform_win :: "'d PerformanceTimer98_win \<Rightarrow> bool" where
  "IsSupportedPlatform_win t = m_valid_win t"

definition GetInterval_win :: "'d fpu \<Rightarrow> 'd PerformanceTimer98_win \<Rightarrow> 'd" where
  "GetInterval_win fp t = fdiv fp (m_interval_win t) (cvt fp (m_perSecond_win t))"

definition SetInterval_win ::
  "'d fpu \<Rightarrow> bool \<Rightarrow> 'd \<Rightarrow> 'd PerformanceTimer98_win \<Rightarrow> failure + 'd PerformanceTimer98_win" where
  "SetInterval_win fp ndebug ticksPerSecond t =
     (if feq fp ticksPerSecond (cvt fp 0)
      then (if ndebug then Inr t else Inl AssertionFailed)
      else Inr (t\<lparr>m_interval_win := fdiv fp (cvt fp (m_perSecond_win t)) ticksPerSecond\<rparr>))"

text \<open>\<open>now\<close> is the count \<open>QueryPerformanceCounter\<close> writes.\<close>

definition Start_win ::
  "bool \<Rightarrow> int \<Rightarrow> 'd PerformanceTimer98_win \<Rightarrow> failure + 'd PerformanceTimer98_win" where
  "Start_win ndebug now t =
     (if \<not> ndebug \<and> \<not> IsSupportedPlatform_win t then Inl AssertionFailed
      else Inr (t\<lparr>m_startTime_win := now, m_stopTime_win := now\<rparr>))"

definition Stop_win ::
  "bool \<Rightarrow> int \<Rightarrow> 'd PerformanceTimer98_win \<Rightarrow> failure + 'd PerformanceTimer98_win" where
  "Stop_win ndebug now t =
     (if \<not> ndebug \<and> \<not> IsSupportedPlatform_win (t\<lparr>m_stopTime_win := now\<rparr>) then Inl AssertionFailed
      else Inr (t\<lparr>m_stopTime_win := now\<rparr>))"

definition GetElapsed_win :: "'d fpu \<Rightarrow> 'd PerformanceTimer98_win \<Rightarrow> 'd" where
  "GetElapsed_win fp t =
     fdiv fp (cvt fp (m_stopTime_win t - m_startTime_win t)) (m_perMillisecond_win t)"

definition GetRemaining_win :: "'d fpu \<Rightarrow> 'd PerformanceTimer98_win \<Rightarrow> 'd" where
  "GetRemaining_win fp t =
     fdiv fp
       (fsub fp (fadd fp (m_interval_win t) (cvt fp (m_startTime_win t)))
          (cvt fp (m_stopTime_win t)))
       (m_perMillisecond_win t)"

definition IntervalHasElapsed_win :: "'d fpu \<Rightarrow> 'd PerformanceTimer98_win \<Rightarrow> bool" where
  "IntervalHasElapsed_win fp t =
     fge fp (cvt fp (m_stopTime_win t - m_startTime_win t)) (m_interval_win t)"

section \<open>PerformanceTimer98, the Linux version\<close>

text \<open>
  A \<open>timeval\<close> holds the seconds since 1970 and the microseconds, in signed 64-bit
  fields; \<open>gettimeofday\<close> gives the microseconds between 0 and 999999.
\<close>

record timeval =
  tv_sec :: int
  tv_usec :: int

text \<open>The macro \<open>timersub\<close> of \<open>sys/time.h\<close>: the difference, with one borrow.\<close>

definition timersub :: "timeval \<Rightarrow> timeval \<Rightarrow> timeval" where
  "timersub a b =
     (let sec = tv_sec a - tv_sec b; usec = tv_usec a - tv_usec b
      in if usec < 0 then \<lparr>tv_sec = sec - 1, tv_usec = usec + 1000000\<rparr>
         else \<lparr>tv_sec = sec, tv_usec = usec\<rparr>)"

record 'd PerformanceTimer98_lin =
  m_startTime_lin :: timeval
  m_stopTime_lin :: timeval
  m_interval_lin :: 'd

definition PerformanceTimer98_lin :: "'d fpu \<Rightarrow> 'd PerformanceTimer98_lin" where
  "PerformanceTimer98_lin fp =
     \<lparr>m_startTime_lin = \<lparr>tv_sec = 0, tv_usec = 0\<rparr>,
      m_stopTime_lin = \<lparr>tv_sec = 0, tv_usec = 0\<rparr>,
      m_interval_lin = fdiv fp (cvt fp 1) (cvt fp 60)\<rparr>"


definition GetInterval_lin :: "'d PerformanceTimer98_lin \<Rightarrow> 'd" where
  "GetInterval_lin t = m_interval_lin t"

definition SetInterval_lin ::
  "'d fpu \<Rightarrow> bool \<Rightarrow> 'd \<Rightarrow> 'd PerformanceTimer98_lin \<Rightarrow> failure + 'd PerformanceTimer98_lin" where
  "SetInterval_lin fp ndebug ticksPerSecond t =
     (if feq fp ticksPerSecond (cvt fp 0)
      then (if ndebug then Inr t else Inl AssertionFailed)
      else Inr (t\<lparr>m_interval_lin := fdiv fp (cvt fp 1) ticksPerSecond\<rparr>))"

text \<open>\<open>now\<close> is the time \<open>gettimeofday\<close> writes.\<close>

definition Start_lin :: "timeval \<Rightarrow> 'd PerformanceTimer98_lin \<Rightarrow> 'd PerformanceTimer98_lin" where
  "Start_lin now t = t\<lparr>m_startTime_lin := now, m_stopTime_lin := now\<rparr>"

definition Stop_lin :: "timeval \<Rightarrow> 'd PerformanceTimer98_lin \<Rightarrow> 'd PerformanceTimer98_lin" where
  "Stop_lin now t = t\<lparr>m_stopTime_lin := now\<rparr>"

definition GetElapsed_lin :: "'d fpu \<Rightarrow> 'd PerformanceTimer98_lin \<Rightarrow> 'd" where
  "GetElapsed_lin fp t =
     (let diff = timersub (m_stopTime_lin t) (m_startTime_lin t)
      in fadd fp (fmul fp (cvt fp (tv_sec diff)) (cvt fp 1000))
           (fdiv fp (cvt fp (tv_usec diff)) (cvt fp 1000)))"

definition GetRemaining_lin :: "'d fpu \<Rightarrow> 'd PerformanceTimer98_lin \<Rightarrow> 'd" where
  "GetRemaining_lin fp t = fsub fp (fmul fp (m_interval_lin t) (cvt fp 1000)) (GetElapsed_lin fp t)"

definition IntervalHasElapsed_lin :: "'d fpu \<Rightarrow> 'd PerformanceTimer98_lin \<Rightarrow> bool" where
  "IntervalHasElapsed_lin fp t =
     (let diff = timersub (m_stopTime_lin t) (m_startTime_lin t)
      in fge fp (fadd fp (cvt fp (tv_sec diff)) (fdiv fp (cvt fp (tv_usec diff)) (cvt fp 1000000)))
           (m_interval_lin t))"

section \<open>PerformanceTimer11\<close>

text \<open>
  \<open>Clock\<close> is \<open>std::chrono::steady_clock\<close> or a steady \<open>high_resolution_clock\<close>; its
  \<open>time_point\<close> is a signed 64-bit count of nanoseconds since the clock's epoch (the period
  of both clocks is \<open>std::nano\<close> in libstdc++, libc++ and the MSVC library). \<open>Seconds\<close> is
  \<open>duration<double>\<close> and \<open>Milliseconds\<close> is \<open>duration<double, std::milli>\<close>; only the
  \<open>count()\<close> of a duration is stored. The conversions between durations are those of
  \<open>duration_cast\<close>: a multiplication by the ratio of the periods when it is a whole
  number, a division by its denominator when its numerator is one, both in \<open>double\<close>.
  The counts of the two instants are non-negative and embedded as \<open>int\<close>.
\<close>

record 'd PerformanceTimer11 =
  m_startTime_11 :: int
  m_stopTime_11 :: int
  m_interval_11 :: 'd

definition PerformanceTimer11 :: "'d fpu \<Rightarrow> 'd PerformanceTimer11" where
  "PerformanceTimer11 fp =
     \<lparr>m_startTime_11 = 0, m_stopTime_11 = 0, m_interval_11 = fdiv fp (cvt fp 1) (cvt fp 60)\<rparr>"


definition GetInterval_11 :: "'d PerformanceTimer11 \<Rightarrow> 'd" where
  "GetInterval_11 t = m_interval_11 t"

definition SetInterval_11 ::
  "'d fpu \<Rightarrow> bool \<Rightarrow> 'd \<Rightarrow> 'd PerformanceTimer11 \<Rightarrow> failure + 'd PerformanceTimer11" where
  "SetInterval_11 fp ndebug ticksPerSecond t =
     (if feq fp ticksPerSecond (cvt fp 0)
      then (if ndebug then Inr t else Inl AssertionFailed)
      else Inr (t\<lparr>m_interval_11 := fdiv fp (cvt fp 1) ticksPerSecond\<rparr>))"

text \<open>\<open>now\<close> is the reading of \<open>Clock::now()\<close>.\<close>

definition Start_11 :: "int \<Rightarrow> 'd PerformanceTimer11 \<Rightarrow> 'd PerformanceTimer11" where
  "Start_11 now t = t\<lparr>m_startTime_11 := now, m_stopTime_11 := now\<rparr>"

definition Stop_11 :: "int \<Rightarrow> 'd PerformanceTimer11 \<Rightarrow> 'd PerformanceTimer11" where
  "Stop_11 now t = t\<lparr>m_stopTime_11 := now\<rparr>"

text \<open>\<open>Milliseconds(m_stopTime - m_startTime)\<close>: nanoseconds to milliseconds.\<close>

definition Milliseconds :: "'d fpu \<Rightarrow> int \<Rightarrow> 'd" where
  "Milliseconds fp ns = fdiv fp (cvt fp ns) (cvt fp 1000000)"

definition GetElapsed_11 :: "'d fpu \<Rightarrow> 'd PerformanceTimer11 \<Rightarrow> 'd" where
  "GetElapsed_11 fp t = Milliseconds fp (m_stopTime_11 t - m_startTime_11 t)"

text \<open>
  The difference of a \<open>Seconds\<close> and a \<open>Milliseconds\<close> is taken in their common type,
  \<open>Milliseconds\<close>: the interval is multiplied by 1000 first.
\<close>

definition GetRemaining_11 :: "'d fpu \<Rightarrow> 'd PerformanceTimer11 \<Rightarrow> 'd" where
  "GetRemaining_11 fp t =
     fsub fp (fmul fp (m_interval_11 t) (cvt fp 1000))
       (Milliseconds fp (m_stopTime_11 t - m_startTime_11 t))"

text \<open>
  \<open>a >= b\<close> on durations is \<open>!(a < b)\<close>, and \<open><\<close> compares the counts in the common type,
  here nanoseconds in \<open>double\<close>: the interval is multiplied by \<open>10^9\<close>.
\<close>

definition IntervalHasElapsed_11 :: "'d fpu \<Rightarrow> 'd PerformanceTimer11 \<Rightarrow> bool" where
  "IntervalHasElapsed_11 fp t =
     (\<not> flt fp (cvt fp (m_stopTime_11 t - m_startTime_11 t))
          (fmul fp (m_interval_11 t) (cvt fp 1000000000)))"

section \<open>Sequences of calls\<close>

text \<open>
  A client calls \<open>SetInterval\<close>, \<open>Start\<close> and \<open>Stop\<close> in any order; \<open>Start\<close> and \<open>Stop\<close> come
  with the reading the clock gives at that moment. A run stops at the first failed
  assertion. The five queries are \<open>const\<close>: \<open>observe\<close> collects what they return in a state.
\<close>

datatype ('d, 'c) call = SetIntervalCall 'd | StartCall 'c | StopCall 'c

definition step_win ::
  "'d fpu \<Rightarrow> bool \<Rightarrow> ('d, int) call \<Rightarrow> 'd PerformanceTimer98_win \<Rightarrow> failure + 'd PerformanceTimer98_win" where
  "step_win fp ndebug c t =
     (case c of SetIntervalCall r \<Rightarrow> SetInterval_win fp ndebug r t
      | StartCall now \<Rightarrow> Start_win ndebug now t
      | StopCall now \<Rightarrow> Stop_win ndebug now t)"

fun run_win ::
  "'d fpu \<Rightarrow> bool \<Rightarrow> ('d, int) call list \<Rightarrow> 'd PerformanceTimer98_win \<Rightarrow> failure + 'd PerformanceTimer98_win" where
  "run_win fp ndebug [] t = Inr t"
| "run_win fp ndebug (c # cs) t =
     (case step_win fp ndebug c t of Inl e \<Rightarrow> Inl e | Inr t' \<Rightarrow> run_win fp ndebug cs t')"

definition step_lin ::
  "'d fpu \<Rightarrow> bool \<Rightarrow> ('d, timeval) call \<Rightarrow> 'd PerformanceTimer98_lin \<Rightarrow> failure + 'd PerformanceTimer98_lin" where
  "step_lin fp ndebug c t =
     (case c of SetIntervalCall r \<Rightarrow> SetInterval_lin fp ndebug r t
      | StartCall now \<Rightarrow> Inr (Start_lin now t)
      | StopCall now \<Rightarrow> Inr (Stop_lin now t))"

fun run_lin ::
  "'d fpu \<Rightarrow> bool \<Rightarrow> ('d, timeval) call list \<Rightarrow> 'd PerformanceTimer98_lin \<Rightarrow> failure + 'd PerformanceTimer98_lin" where
  "run_lin fp ndebug [] t = Inr t"
| "run_lin fp ndebug (c # cs) t =
     (case step_lin fp ndebug c t of Inl e \<Rightarrow> Inl e | Inr t' \<Rightarrow> run_lin fp ndebug cs t')"

definition step_11 ::
  "'d fpu \<Rightarrow> bool \<Rightarrow> ('d, int) call \<Rightarrow> 'd PerformanceTimer11 \<Rightarrow> failure + 'd PerformanceTimer11" where
  "step_11 fp ndebug c t =
     (case c of SetIntervalCall r \<Rightarrow> SetInterval_11 fp ndebug r t
      | StartCall now \<Rightarrow> Inr (Start_11 now t)
      | StopCall now \<Rightarrow> Inr (Stop_11 now t))"

fun run_11 ::
  "'d fpu \<Rightarrow> bool \<Rightarrow> ('d, int) call list \<Rightarrow> 'd PerformanceTimer11 \<Rightarrow> failure + 'd PerformanceTimer11" where
  "run_11 fp ndebug [] t = Inr t"
| "run_11 fp ndebug (c # cs) t =
     (case step_11 fp ndebug c t of Inl e \<Rightarrow> Inl e | Inr t' \<Rightarrow> run_11 fp ndebug cs t')"




text \<open>
  One instant, read by the three clocks: \<open>n\<close> ticks of a counter of \<open>freq\<close> ticks per
  second, the \<open>timeval\<close> \<open>tv\<close> (seconds and microseconds) and \<open>ns\<close> nanoseconds.
\<close>

definition usecs :: "timeval \<Rightarrow> int" where
  "usecs tv = tv_sec tv * 1000000 + tv_usec tv"







section \<open>IEEE 754 binary64\<close>

text \<open>
  The arithmetic of \<open>double\<close> on the machines the timers run on: a value is a finite
  number, an infinity or a NaN, and every operation returns its exact result rounded to
  the nearest number with a 53-bit significand, ties to the even one, with gradual
  underflow below \<open>2^-1022\<close> and overflow to an infinity from \<open>2^1024\<close>. The two zeros are
  one value here, so a zero divisor counts as \<open>+0\<close>. \<open>Finite\<close> carries the real number a
  double denotes; what the operations return is always representable.
\<close>

datatype binary64 = Finite real | PlusInf | MinusInf | NaN

definition pow2 :: "int \<Rightarrow> real" where
  "pow2 k = (if 0 \<le> k then 2 ^ nat k else 1 / 2 ^ nat (- k))"

text \<open>The exponent of a positive number: \<open>pow2 (ilog2 x) \<le> x < pow2 (ilog2 x + 1)\<close>.\<close>

definition ilog2 :: "real \<Rightarrow> int" where
  "ilog2 x = (if 1 \<le> x then bitlen \<lfloor>x\<rfloor> - 1 else - bitlen (\<lceil>1 / x\<rceil> - 1))"

definition round_half_even :: "real \<Rightarrow> int" where
  "round_half_even x =
     (let n = \<lfloor>x\<rfloor>; r = x - of_int n
      in if r < 1 / 2 then n else if 1 / 2 < r then n + 1 else if even n then n else n + 1)"

definition round64 :: "real \<Rightarrow> binary64" where
  "round64 x =
     (if x = 0 then Finite 0
      else let e = max (ilog2 \<bar>x\<bar>) (- 1022);
               ulp = pow2 (e - 52);
               y = of_int (round_half_even (x / ulp)) * ulp
           in if 2 ^ 1024 \<le> \<bar>y\<bar> then (if 0 < x then PlusInf else MinusInf) else Finite y)"

fun neg64 :: "binary64 \<Rightarrow> binary64" where
  "neg64 (Finite a) = Finite (- a)"
| "neg64 PlusInf = MinusInf"
| "neg64 MinusInf = PlusInf"
| "neg64 NaN = NaN"

fun add64 :: "binary64 \<Rightarrow> binary64 \<Rightarrow> binary64" where
  "add64 (Finite a) (Finite b) = round64 (a + b)"
| "add64 NaN y = NaN"
| "add64 x NaN = NaN"
| "add64 PlusInf MinusInf = NaN"
| "add64 MinusInf PlusInf = NaN"
| "add64 PlusInf y = PlusInf"
| "add64 MinusInf y = MinusInf"
| "add64 x PlusInf = PlusInf"
| "add64 x MinusInf = MinusInf"

definition sub64 :: "binary64 \<Rightarrow> binary64 \<Rightarrow> binary64" where
  "sub64 x y = add64 x (neg64 y)"

fun sign64 :: "binary64 \<Rightarrow> int" where
  "sign64 (Finite a) = (if 0 < a then 1 else if a < 0 then - 1 else 0)"
| "sign64 PlusInf = 1"
| "sign64 MinusInf = - 1"
| "sign64 NaN = 0"

fun mul64 :: "binary64 \<Rightarrow> binary64 \<Rightarrow> binary64" where
  "mul64 (Finite a) (Finite b) = round64 (a * b)"
| "mul64 NaN y = NaN"
| "mul64 x NaN = NaN"
| "mul64 x y =
     (if sign64 x * sign64 y = 0 then NaN
      else if 0 < sign64 x * sign64 y then PlusInf else MinusInf)"

fun div64 :: "binary64 \<Rightarrow> binary64 \<Rightarrow> binary64" where
  "div64 (Finite a) (Finite b) =
     (if b = 0 then (if a = 0 then NaN else if 0 < a then PlusInf else MinusInf)
      else round64 (a / b))"
| "div64 NaN y = NaN"
| "div64 x NaN = NaN"
| "div64 (Finite a) y = Finite 0"
| "div64 x (Finite b) = (if b < 0 then neg64 x else x)"
| "div64 x y = NaN"

fun lt64 :: "binary64 \<Rightarrow> binary64 \<Rightarrow> bool" where
  "lt64 (Finite a) (Finite b) = (a < b)"
| "lt64 NaN y = False"
| "lt64 x NaN = False"
| "lt64 x MinusInf = False"
| "lt64 PlusInf y = False"
| "lt64 x y = True"

fun eq64 :: "binary64 \<Rightarrow> binary64 \<Rightarrow> bool" where
  "eq64 NaN y = False"
| "eq64 x NaN = False"
| "eq64 x y = (x = y)"

definition ge64 :: "binary64 \<Rightarrow> binary64 \<Rightarrow> bool" where
  "ge64 x y = (lt64 y x \<or> eq64 x y)"

definition ieee_double :: "binary64 fpu" where
  "ieee_double = \<lparr>cvt = (\<lambda>i. round64 (of_int i)), fadd = add64, fsub = sub64, fmul = mul64,
     fdiv = div64, fge = ge64, flt = lt64, feq = eq64\<rparr>"

section \<open>Evaluating binary64\<close>

lemma bitlen_step: "0 < x \<Longrightarrow> bitlen x = bitlen (x div 2) + 1"
  by (subst compute_bitlen) simp

lemmas round64_eval = round64_def ilog2_def pow2_def round_half_even_def Let_def bitlen_step

lemma cvt_ieee_double:
  "cvt ieee_double 0 = Finite 0" "cvt ieee_double 1 = Finite 1" "cvt ieee_double 60 = Finite 60"
  "cvt ieee_double 1000 = Finite 1000" "cvt ieee_double 10000000 = Finite 10000000"
  by (simp_all add: ieee_double_def round64_eval)

text \<open>The double nearest to one tenth, as a check of the rounding.\<close>

lemma one_tenth_ieee_double:
  "fdiv ieee_double (cvt ieee_double 1) (cvt ieee_double 10) = Finite (3602879701896397 / 36028797018963968)"
  by (simp add: ieee_double_def round64_eval)

lemma cvt_ieee_double_more:
  "cvt ieee_double 1000000 = Finite 1000000" "cvt ieee_double 1000000000 = Finite 1000000000"
  by (simp_all add: ieee_double_def round64_eval)

lemma sixtieth_ieee_double:
  "fdiv ieee_double (cvt ieee_double 1) (cvt ieee_double 60)
     = Finite (4803839602528529 / 288230376151711744)"
  by (simp add: ieee_double_def round64_eval)

lemma win_default_fields:
  "m_perMillisecond_win (PerformanceTimer98_win ieee_double True 10000000) = Finite 10000"
  "m_interval_win (PerformanceTimer98_win ieee_double True 10000000)
     = Finite (5726623061333333 / 34359738368)"
  by (simp_all add: PerformanceTimer98_win_def cvt_ieee_double)
    (simp_all add: ieee_double_def round64_eval)

section \<open>The rounding is to nearest, and keeps the sign\<close>

lemma pow2_pos: "0 < pow2 k"
  by (simp add: pow2_def)

lemma pow2_nat: "0 \<le> k \<Longrightarrow> pow2 k = 2 ^ nat k"
  by (simp add: pow2_def)

lemma ilog2_bounds:
  assumes "0 < x"
  shows "pow2 (ilog2 x) \<le> x \<and> x < pow2 (ilog2 x + 1)"
proof (cases "1 \<le> x")
  case True
  define n where "n = \<lfloor>x\<rfloor>"
  from True have n: "0 < n" by (simp add: n_def)
  from bitlen_bounds [OF n] have lo: "2 ^ nat (bitlen n - 1) \<le> n" and hi: "n < 2 ^ nat (bitlen n)"
    by simp_all
  from n have b: "1 \<le> bitlen n"
    using bitlen_eq_zero_iff [of n] bitlen_nonneg [of n] by linarith
  have "real_of_int (2 ^ nat (bitlen n - 1)) \<le> real_of_int n"
    using lo by (simp only: of_int_le_iff)
  also have "real_of_int n \<le> x" by (simp add: n_def)
  finally have 1: "pow2 (bitlen n - 1) \<le> x"
    using b by (simp add: pow2_nat)
  from hi have "n + 1 \<le> 2 ^ nat (bitlen n)" by simp
  then have "real_of_int (n + 1) \<le> real_of_int (2 ^ nat (bitlen n))"
    by (simp only: of_int_le_iff)
  moreover have "x < real_of_int (n + 1)"
    by (simp add: n_def)
  ultimately have 2: "x < pow2 (bitlen n)"
    using b by (simp add: pow2_nat)
  from True 1 2 show ?thesis
    by (simp add: ilog2_def n_def)
next
  case False
  define m where "m = \<lceil>1 / x\<rceil>"
  from False assms have inv: "1 < 1 / x" by simp
  then have m: "0 < m - 1"
    by (simp add: m_def less_ceiling_iff)
  define j where "j = bitlen (m - 1)"
  from bitlen_bounds [OF m] have lo: "2 ^ nat (j - 1) \<le> m - 1" and hi: "m - 1 < 2 ^ nat j"
    by (simp_all add: j_def)
  from m have b: "1 \<le> j"
    using bitlen_eq_zero_iff [of "m - 1"] bitlen_nonneg [of "m - 1"] unfolding j_def by linarith
  have "1 / x \<le> real_of_int m" by (simp add: m_def)
  also from hi have "m \<le> 2 ^ nat j" by simp
  then have "real_of_int m \<le> real_of_int (2 ^ nat j)" by (simp only: of_int_le_iff)
  finally have "1 / x \<le> 2 ^ nat j" by simp
  with assms have "1 \<le> 2 ^ nat j * x"
    by (simp add: field_simps)
  then have 1: "pow2 (- j) \<le> x"
    using b by (simp add: pow2_def field_simps)
  have "real_of_int (2 ^ nat (j - 1)) \<le> real_of_int (m - 1)"
    using lo by (simp only: of_int_le_iff)
  moreover have "real_of_int (m - 1) < 1 / x"
    using ceiling_correct [of "1 / x"] by (simp add: m_def)
  ultimately have "2 ^ nat (j - 1) < 1 / x" by simp
  with assms have lt: "x * 2 ^ nat (j - 1) < 1"
    by (simp add: field_simps)
  have 2: "x < pow2 (- j + 1)"
  proof (cases "j = 1")
    case True
    with lt show ?thesis by (simp add: pow2_def)
  next
    case False
    with b have "nat (- (- j + 1)) = nat (j - 1)" and "\<not> 0 \<le> - j + 1" by simp_all
    with lt show ?thesis by (simp add: pow2_def field_simps)
  qed
  from False 1 2 show ?thesis
    by (simp add: ilog2_def m_def j_def)
qed

lemma round_half_even_nearest: "\<bar>x - real_of_int (round_half_even x)\<bar> \<le> 1 / 2"
proof -
  have "real_of_int \<lfloor>x\<rfloor> \<le> x" and "x < real_of_int \<lfloor>x\<rfloor> + 1"
    by linarith+
  then show ?thesis
    by (auto simp: round_half_even_def Let_def abs_le_iff)
qed


lemma pow2_powi: "pow2 k = 2 powi k"
  by (simp add: pow2_def power_int_def power_one_over inverse_eq_divide)

lemma pow2_mono: "a \<le> b \<Longrightarrow> pow2 a \<le> pow2 b"
  by (simp add: pow2_powi power_int_increasing)

lemma round_half_even_mono_0: "0 \<le> x \<Longrightarrow> 0 \<le> round_half_even x"
  by (auto simp: round_half_even_def Let_def)

lemma round_half_even_le_0: "x \<le> 0 \<Longrightarrow> round_half_even x \<le> 0"
proof -
  assume x: "x \<le> 0"
  have f: "real_of_int \<lfloor>x\<rfloor> \<le> x" by linarith
  show ?thesis
  proof (cases "x = real_of_int \<lfloor>x\<rfloor>")
    case True
    with x show ?thesis by (simp add: round_half_even_def Let_def)
  next
    case False
    with f x have "real_of_int \<lfloor>x\<rfloor> < 0" by linarith
    then have "\<lfloor>x\<rfloor> + 1 \<le> 0" by linarith
    moreover have "\<lfloor>x\<rfloor> \<le> 0" using x by simp
    ultimately show ?thesis by (auto simp: round_half_even_def Let_def)
  qed
qed

lemma round_half_even_ge_1: "1 \<le> x \<Longrightarrow> 1 \<le> round_half_even x"
proof -
  assume "1 \<le> x"
  then have "1 \<le> \<lfloor>x\<rfloor>" by simp
  then show ?thesis by (auto simp: round_half_even_def Let_def)
qed

text \<open>A rounded value is within half a unit in the last place of the exact one.\<close>

lemma round64_error:
  assumes "round64 x = Finite y" and "x \<noteq> 0"
  shows "\<bar>x - y\<bar> \<le> pow2 (max (ilog2 \<bar>x\<bar>) (- 1022) - 52) / 2"
proof -
  define u where "u = pow2 (max (ilog2 \<bar>x\<bar>) (- 1022) - 52)"
  have u: "0 < u" by (simp add: u_def pow2_pos)
  from assms have y: "y = real_of_int (round_half_even (x / u)) * u"
    by (simp add: round64_def Let_def u_def split: if_splits)
  have "\<bar>x / u - real_of_int (round_half_even (x / u))\<bar> \<le> 1 / 2"
    by (rule round_half_even_nearest)
  then have "\<bar>x / u - real_of_int (round_half_even (x / u))\<bar> * u \<le> 1 / 2 * u"
    using u by (simp only: mult_le_cancel_right_pos)
  moreover have "\<bar>x / u - real_of_int (round_half_even (x / u))\<bar> * u = \<bar>x - y\<bar>"
  proof -
    have "\<bar>x / u - real_of_int (round_half_even (x / u))\<bar> * u
        = \<bar>(x / u - real_of_int (round_half_even (x / u))) * u\<bar>"
      using u by (simp add: abs_mult)
    also have "(x / u - real_of_int (round_half_even (x / u))) * u = x - y"
      using u by (simp add: y field_simps)
    finally show ?thesis .
  qed
  ultimately show ?thesis
    by (simp add: u_def)
qed

text \<open>Rounding keeps the sign.\<close>

lemma round64_nonneg:
  assumes "0 \<le> x"
  shows "round64 x = PlusInf \<or> (\<exists>y. round64 x = Finite y \<and> 0 \<le> y)"
proof (cases "x = 0")
  case True
  then show ?thesis by (simp add: round64_def)
next
  case False
  define u where "u = pow2 (max (ilog2 \<bar>x\<bar>) (- 1022) - 52)"
  have u: "0 < u" by (simp add: u_def pow2_pos)
  with assms have "0 \<le> x / u" by simp
  then have "0 \<le> round_half_even (x / u)" by (rule round_half_even_mono_0)
  with u have "0 \<le> real_of_int (round_half_even (x / u)) * u" by simp
  with False assms show ?thesis
    by (simp add: round64_def Let_def u_def)
qed

lemma round64_nonpos:
  assumes "x \<le> 0"
  shows "round64 x = MinusInf \<or> (\<exists>y. round64 x = Finite y \<and> y \<le> 0)"
proof (cases "x = 0")
  case True
  then show ?thesis by (simp add: round64_def)
next
  case False
  define u where "u = pow2 (max (ilog2 \<bar>x\<bar>) (- 1022) - 52)"
  have u: "0 < u" by (simp add: u_def pow2_pos)
  with assms have "x / u \<le> 0" by (simp add: divide_le_0_iff)
  then have "round_half_even (x / u) \<le> 0" by (rule round_half_even_le_0)
  with u have "real_of_int (round_half_even (x / u)) * u \<le> 0"
    by (simp add: mult_le_0_iff)
  with False assms show ?thesis
    by (simp add: round64_def Let_def u_def)
qed

text \<open>From the smallest positive double upwards, rounding gives a positive value.\<close>

lemma round64_pos:
  assumes "pow2 (- 1074) \<le> x"
  shows "round64 x = PlusInf \<or> (\<exists>y. round64 x = Finite y \<and> 0 < y)"
proof -
  from assms pow2_pos [of "- 1074"] have x: "0 < x" by linarith
  define e where "e = max (ilog2 \<bar>x\<bar>) (- 1022)"
  define u where "u = pow2 (e - 52)"
  have u: "0 < u" by (simp add: u_def pow2_pos)
  have "u \<le> x"
  proof (cases "- 1022 \<le> ilog2 x")
    case True
    with x have "e = ilog2 x" by (simp add: e_def)
    then have "u \<le> pow2 (ilog2 x)"
      by (simp add: u_def pow2_mono)
    with ilog2_bounds [OF x] show ?thesis by linarith
  next
    case False
    with x have "e = - 1022" by (simp add: e_def)
    with assms show ?thesis by (simp add: u_def)
  qed
  with u have "1 \<le> x / u" by simp
  then have "1 \<le> round_half_even (x / u)" by (rule round_half_even_ge_1)
  then have "1 \<le> real_of_int (round_half_even (x / u))" by simp
  with u have "0 < real_of_int (round_half_even (x / u)) * u" by simp
  with x show ?thesis
    by (simp add: round64_def Let_def u_def e_def)
qed

lemma cvt_ieee_double_nonneg:
  "0 \<le> i \<Longrightarrow> cvt ieee_double i = PlusInf \<or> (\<exists>z. cvt ieee_double i = Finite z \<and> 0 \<le> z)"
  using round64_nonneg [of "real_of_int i"] by (simp add: ieee_double_def)

lemma lt64_nonneg_nonpos:
  assumes "p = PlusInf \<or> (\<exists>z. p = Finite z \<and> 0 \<le> z)"
    and "q = MinusInf \<or> (\<exists>y. q = Finite y \<and> y \<le> 0)"
  shows "\<not> lt64 p q" and "ge64 p q"
  using assms by (auto simp: ge64_def)

section \<open>Clock readings\<close>

text \<open>
  The difference of two non-negative signed 64-bit readings is in range, so
  \<open>m_stopTime - m_startTime\<close> never overflows.
\<close>

lemma reading_difference_in_range:
  "0 \<le> a \<Longrightarrow> a < 2 ^ 63 \<Longrightarrow> 0 \<le> b \<Longrightarrow> b < 2 ^ 63 \<Longrightarrow> - (2 ^ 63) \<le> b - a \<and> b - a < (2 ^ 63 :: int)"
  by simp

section \<open>Differences of timevals\<close>

lemma timersub_self: "timersub tv tv = \<lparr>tv_sec = 0, tv_usec = 0\<rparr>"
  by (simp add: timersub_def)

lemma usecs_timersub: "usecs (timersub a b) = usecs a - usecs b"
  by (simp add: timersub_def usecs_def Let_def)

lemma timersub_seconds:
  "real_of_int (tv_sec (timersub a b)) + real_of_int (tv_usec (timersub a b)) / 1000000
     = real_of_int (usecs a - usecs b) / 1000000"
  by (simp add: timersub_def usecs_def Let_def field_simps)


lemma timersub_nonneg:
  assumes "0 \<le> tv_usec ts" "tv_usec ts < 1000000" "0 \<le> tv_usec te" "tv_usec te < 1000000"
    and "usecs ts \<le> usecs te"
  shows "0 \<le> tv_sec (timersub te ts) \<and> 0 \<le> tv_usec (timersub te ts)"
  using assms by (auto simp: timersub_def usecs_def Let_def)

section \<open>The calibration data never change\<close>

lemma step_win_calibration:
  assumes "step_win fp ndebug c t = Inr t'"
  shows "m_perSecond_win t' = m_perSecond_win t \<and> m_perMillisecond_win t' = m_perMillisecond_win t
    \<and> m_valid_win t' = m_valid_win t"
  using assms
  by (cases c) (auto simp: step_win_def SetInterval_win_def Start_win_def Stop_win_def split: if_splits)

lemma run_win_calibration:
  "run_win fp ndebug cs t = Inr t' \<Longrightarrow>
     m_perSecond_win t' = m_perSecond_win t \<and> m_perMillisecond_win t' = m_perMillisecond_win t
     \<and> m_valid_win t' = m_valid_win t"
proof (induction cs arbitrary: t)
  case Nil
  then show ?case by simp
next
  case (Cons c cs)
  then obtain u where u: "step_win fp ndebug c t = Inr u" and r: "run_win fp ndebug cs u = Inr t'"
    by (auto split: sum.splits)
  from step_win_calibration [OF u] Cons.IH [OF r] show ?case by simp
qed

section \<open>The constructor\<close>

lemma win_default_interval:
  "GetInterval_win ieee_double (PerformanceTimer98_win ieee_double True 10000000)
     = Finite (4803839602528529 / 288230376151711744)"
  apply (simp add: GetInterval_win_def win_default_fields)
  apply (simp add: PerformanceTimer98_win_def cvt_ieee_double)
  apply (simp add: ieee_double_def round64_eval)
  done

text \<open>\<open>16.666666666666664\<close>, the double below \<open>50 / 3\<close>.\<close>

lemma win_default_remaining:
  "GetRemaining_win ieee_double (PerformanceTimer98_win ieee_double True 10000000)
     = Finite (2345624805922133 / 140737488355328)"
  apply (simp add: GetRemaining_win_def win_default_fields)
  apply (simp add: PerformanceTimer98_win_def cvt_ieee_double)
  apply (simp add: ieee_double_def sub64_def round64_eval)
  done

lemma win_default_elapsed:
  "GetElapsed_win ieee_double (PerformanceTimer98_win ieee_double True 10000000) = Finite 0
   \<and> \<not> IntervalHasElapsed_win ieee_double (PerformanceTimer98_win ieee_double True 10000000)"
  apply (simp add: GetElapsed_win_def IntervalHasElapsed_win_def win_default_fields)
  apply (simp add: PerformanceTimer98_win_def cvt_ieee_double)
  apply (simp add: ieee_double_def round64_def ge64_def)
  done

text \<open>\<open>16.666666666666668\<close>, the double above \<open>50 / 3\<close>.\<close>

lemma lin_default_ieee_double:
  "GetElapsed_lin ieee_double (PerformanceTimer98_lin ieee_double) = Finite 0
   \<and> GetRemaining_lin ieee_double (PerformanceTimer98_lin ieee_double)
       = Finite (4691249611844267 / 281474976710656)
   \<and> \<not> IntervalHasElapsed_lin ieee_double (PerformanceTimer98_lin ieee_double)"
proof -
  have e: "GetElapsed_lin ieee_double (PerformanceTimer98_lin ieee_double) = Finite 0"
    by (simp add: GetElapsed_lin_def PerformanceTimer98_lin_def timersub_self cvt_ieee_double)
      (simp add: ieee_double_def round64_def)
  have r: "GetRemaining_lin ieee_double (PerformanceTimer98_lin ieee_double)
      = Finite (4691249611844267 / 281474976710656)"
    apply (simp add: GetRemaining_lin_def e)
    apply (simp add: PerformanceTimer98_lin_def sixtieth_ieee_double cvt_ieee_double)
    apply (simp add: ieee_double_def sub64_def round64_eval)
    done
  have h: "\<not> IntervalHasElapsed_lin ieee_double (PerformanceTimer98_lin ieee_double)"
    apply (simp add: IntervalHasElapsed_lin_def PerformanceTimer98_lin_def timersub_self
        sixtieth_ieee_double cvt_ieee_double cvt_ieee_double_more)
    apply (simp add: ieee_double_def round64_eval ge64_def)
    done
  from e r h show ?thesis by simp
qed

lemma c11_default_ieee_double:
  "GetElapsed_11 ieee_double (PerformanceTimer11 ieee_double) = Finite 0
   \<and> GetRemaining_11 ieee_double (PerformanceTimer11 ieee_double)
       = Finite (4691249611844267 / 281474976710656)
   \<and> \<not> IntervalHasElapsed_11 ieee_double (PerformanceTimer11 ieee_double)"
proof -
  have e: "GetElapsed_11 ieee_double (PerformanceTimer11 ieee_double) = Finite 0"
    by (simp add: GetElapsed_11_def Milliseconds_def PerformanceTimer11_def cvt_ieee_double
        cvt_ieee_double_more)
      (simp add: ieee_double_def round64_def)
  have r: "GetRemaining_11 ieee_double (PerformanceTimer11 ieee_double)
      = Finite (4691249611844267 / 281474976710656)"
    apply (simp add: GetRemaining_11_def PerformanceTimer11_def Milliseconds_def
        sixtieth_ieee_double cvt_ieee_double cvt_ieee_double_more)
    apply (simp add: ieee_double_def sub64_def round64_eval)
    done
  have h: "\<not> IntervalHasElapsed_11 ieee_double (PerformanceTimer11 ieee_double)"
    apply (simp add: IntervalHasElapsed_11_def PerformanceTimer11_def sixtieth_ieee_double
        cvt_ieee_double cvt_ieee_double_more)
    apply (simp add: ieee_double_def round64_eval)
    done
  from e r h show ?thesis by simp
qed

text \<open>
  C9. A timer on which nothing has been called yet returns the interval of the
  constructor. The Linux version and PerformanceTimer11 store \<open>1 / 60.0\<close> and return it: the
  double \<open>0.016666666666666666\<close>. The Windows version stores \<open>m_perSecond / 60.0\<close> ticks and
  returns that divided by \<open>m_perSecond\<close>, which is one sixtieth in exact arithmetic when the
  counter has a positive frequency (and the same double on a 10 MHz counter).
\<close>

theorem default_interval_is_a_sixtieth:
  assumes "0 < freq"
  shows "GetInterval_lin (PerformanceTimer98_lin fp) = fdiv fp (cvt fp 1) (cvt fp 60)
    \<and> GetInterval_11 (PerformanceTimer11 fp) = fdiv fp (cvt fp 1) (cvt fp 60)
    \<and> GetInterval_lin (PerformanceTimer98_lin exact) = 1 / 60
    \<and> GetInterval_11 (PerformanceTimer11 exact) = 1 / 60
    \<and> GetInterval_win exact (PerformanceTimer98_win exact ok freq) = 1 / 60"
  using assms
  by (simp add: GetInterval_lin_def PerformanceTimer98_lin_def GetInterval_11_def
      PerformanceTimer11_def GetInterval_win_def PerformanceTimer98_win_def exact_def)

theorem default_interval_is_a_sixtieth_witness:
  "(0::int) < 10000000
   \<and> GetInterval_win exact (PerformanceTimer98_win exact True 10000000) = 1 / 60
   \<and> GetInterval_lin (PerformanceTimer98_lin ieee_double) = Finite (4803839602528529 / 288230376151711744)
   \<and> GetInterval_11 (PerformanceTimer11 ieee_double) = Finite (4803839602528529 / 288230376151711744)
   \<and> GetInterval_win ieee_double (PerformanceTimer98_win ieee_double True 10000000)
       = Finite (4803839602528529 / 288230376151711744)"
proof -
  have f: "(0::int) < 10000000" by simp
  from default_interval_is_a_sixtieth [OF f, where fp = ieee_double and ok = True] f
  show ?thesis by (simp add: sixtieth_ieee_double win_default_interval)
qed

text \<open>
  C10. The constructor sets both instants to zero, so before the first \<open>Start\<close> the elapsed
  time is 0, the remaining time is the whole interval in milliseconds (\<open>1000 / 60\<close>) and
  the interval has not elapsed: in exact arithmetic, and in binary64, where the remaining
  time is the double \<open>16.666666666666668\<close> in the Linux version and in PerformanceTimer11.
  On Windows this needs the counter to have a positive frequency: \<open>m_perMillisecond\<close> and
  the interval are derived from it.
\<close>

theorem queries_before_first_Start:
  assumes "0 < freq"
  shows "m_startTime_win (PerformanceTimer98_win fp ok freq) = 0
    \<and> m_stopTime_win (PerformanceTimer98_win fp ok freq) = 0
    \<and> GetElapsed_win exact (PerformanceTimer98_win exact ok freq) = 0
    \<and> GetRemaining_win exact (PerformanceTimer98_win exact ok freq) = 1000 / 60
    \<and> \<not> IntervalHasElapsed_win exact (PerformanceTimer98_win exact ok freq)
    \<and> m_startTime_lin (PerformanceTimer98_lin fp) = \<lparr>tv_sec = 0, tv_usec = 0\<rparr>
    \<and> m_stopTime_lin (PerformanceTimer98_lin fp) = \<lparr>tv_sec = 0, tv_usec = 0\<rparr>
    \<and> GetElapsed_lin exact (PerformanceTimer98_lin exact) = 0
    \<and> GetRemaining_lin exact (PerformanceTimer98_lin exact) = 1000 / 60
    \<and> \<not> IntervalHasElapsed_lin exact (PerformanceTimer98_lin exact)
    \<and> m_startTime_11 (PerformanceTimer11 fp) = 0
    \<and> m_stopTime_11 (PerformanceTimer11 fp) = 0
    \<and> GetElapsed_11 exact (PerformanceTimer11 exact) = 0
    \<and> GetRemaining_11 exact (PerformanceTimer11 exact) = 1000 / 60
    \<and> \<not> IntervalHasElapsed_11 exact (PerformanceTimer11 exact)
    \<and> GetElapsed_lin ieee_double (PerformanceTimer98_lin ieee_double) = Finite 0
    \<and> GetRemaining_lin ieee_double (PerformanceTimer98_lin ieee_double)
        = Finite (4691249611844267 / 281474976710656)
    \<and> \<not> IntervalHasElapsed_lin ieee_double (PerformanceTimer98_lin ieee_double)
    \<and> GetElapsed_11 ieee_double (PerformanceTimer11 ieee_double) = Finite 0
    \<and> GetRemaining_11 ieee_double (PerformanceTimer11 ieee_double)
        = Finite (4691249611844267 / 281474976710656)
    \<and> \<not> IntervalHasElapsed_11 ieee_double (PerformanceTimer11 ieee_double)"
proof -
  have win: "GetElapsed_win exact (PerformanceTimer98_win exact ok freq) = 0
    \<and> GetRemaining_win exact (PerformanceTimer98_win exact ok freq) = 1000 / 60
    \<and> \<not> IntervalHasElapsed_win exact (PerformanceTimer98_win exact ok freq)"
    using assms
    by (simp add: GetElapsed_win_def GetRemaining_win_def IntervalHasElapsed_win_def
        PerformanceTimer98_win_def exact_def)
  have lin: "GetElapsed_lin exact (PerformanceTimer98_lin exact) = 0
    \<and> GetRemaining_lin exact (PerformanceTimer98_lin exact) = 1000 / 60
    \<and> \<not> IntervalHasElapsed_lin exact (PerformanceTimer98_lin exact)"
    by (simp add: GetElapsed_lin_def GetRemaining_lin_def IntervalHasElapsed_lin_def
        PerformanceTimer98_lin_def timersub_def exact_def)
  have c11: "GetElapsed_11 exact (PerformanceTimer11 exact) = 0
    \<and> GetRemaining_11 exact (PerformanceTimer11 exact) = 1000 / 60
    \<and> \<not> IntervalHasElapsed_11 exact (PerformanceTimer11 exact)"
    by (simp add: GetElapsed_11_def GetRemaining_11_def IntervalHasElapsed_11_def
        Milliseconds_def PerformanceTimer11_def exact_def)
  have fields: "m_startTime_win (PerformanceTimer98_win fp ok freq) = 0
    \<and> m_stopTime_win (PerformanceTimer98_win fp ok freq) = 0
    \<and> m_startTime_lin (PerformanceTimer98_lin fp) = \<lparr>tv_sec = 0, tv_usec = 0\<rparr>
    \<and> m_stopTime_lin (PerformanceTimer98_lin fp) = \<lparr>tv_sec = 0, tv_usec = 0\<rparr>
    \<and> m_startTime_11 (PerformanceTimer11 fp) = 0
    \<and> m_stopTime_11 (PerformanceTimer11 fp) = 0"
    by (simp add: PerformanceTimer98_win_def PerformanceTimer98_lin_def PerformanceTimer11_def)
  from fields win lin c11 lin_default_ieee_double c11_default_ieee_double show ?thesis
    by blast
qed

theorem queries_before_first_Start_witness:
  "(0::int) < 10000000
   \<and> GetElapsed_win exact (PerformanceTimer98_win exact True 10000000) = 0
   \<and> GetRemaining_win exact (PerformanceTimer98_win exact True 10000000) = 50 / 3
   \<and> \<not> IntervalHasElapsed_win exact (PerformanceTimer98_win exact True 10000000)
   \<and> GetElapsed_win ieee_double (PerformanceTimer98_win ieee_double True 10000000) = Finite 0
   \<and> GetRemaining_win ieee_double (PerformanceTimer98_win ieee_double True 10000000)
       = Finite (2345624805922133 / 140737488355328)
   \<and> \<not> IntervalHasElapsed_win ieee_double (PerformanceTimer98_win ieee_double True 10000000)"
proof -
  have f: "(0::int) < 10000000" by simp
  from queries_before_first_Start [OF f, where fp = exact and ok = True] f
    win_default_elapsed win_default_remaining
  show ?thesis by simp
qed

section \<open>A zero rate\<close>

text \<open>
  C4. \<open>SetInterval\<close> with a rate that compares equal to zero runs into \<open>assert(false)\<close>: the
  debug build aborts there, and the release build returns with the timer as it was, so the
  interval and the two instants are those of before the call.
\<close>

theorem SetInterval_zero_is_rejected:
  assumes "feq fp ticksPerSecond (cvt fp 0)"
  shows "SetInterval_win fp ndebug ticksPerSecond w = (if ndebug then Inr w else Inl AssertionFailed)
    \<and> SetInterval_lin fp ndebug ticksPerSecond l = (if ndebug then Inr l else Inl AssertionFailed)
    \<and> SetInterval_11 fp ndebug ticksPerSecond c = (if ndebug then Inr c else Inl AssertionFailed)"
  using assms by (simp add: SetInterval_win_def SetInterval_lin_def SetInterval_11_def)

theorem SetInterval_zero_is_rejected_witness:
  "feq exact 0 (cvt exact 0)
   \<and> SetInterval_win exact True 0 (PerformanceTimer98_win exact True 10000000)
       = Inr (PerformanceTimer98_win exact True 10000000)
   \<and> SetInterval_lin exact True 0 (PerformanceTimer98_lin exact) = Inr (PerformanceTimer98_lin exact)
   \<and> SetInterval_11 exact True 0 (PerformanceTimer11 exact) = Inr (PerformanceTimer11 exact)
   \<and> SetInterval_11 exact False 0 (PerformanceTimer11 exact) = Inl AssertionFailed
   \<and> feq ieee_double (Finite 0) (cvt ieee_double 0)
   \<and> SetInterval_11 ieee_double True (Finite 0) (PerformanceTimer11 ieee_double)
       = Inr (PerformanceTimer11 ieee_double)"
proof -
  have z: "feq exact 0 (cvt exact 0)" by (simp add: exact_def)
  have zd: "feq ieee_double (Finite 0) (cvt ieee_double 0)"
    by (simp add: cvt_ieee_double) (simp add: ieee_double_def)
  from SetInterval_zero_is_rejected [OF z, where ndebug = True
      and w = "PerformanceTimer98_win exact True 10000000" and l = "PerformanceTimer98_lin exact"
      and c = "PerformanceTimer11 exact"]
    SetInterval_zero_is_rejected [OF z, where ndebug = False
      and w = "PerformanceTimer98_win exact True 10000000" and l = "PerformanceTimer98_lin exact"
      and c = "PerformanceTimer11 exact"]
    SetInterval_zero_is_rejected [OF zd, where ndebug = True
      and w = "PerformanceTimer98_win ieee_double True 10000000"
      and l = "PerformanceTimer98_lin ieee_double" and c = "PerformanceTimer11 ieee_double"]
    z zd
  show ?thesis by simp
qed

section \<open>Setting and reading the interval\<close>

lemma tiny_rate_ieee_double:
  "fdiv ieee_double (cvt ieee_double 10000000) (Finite (1 / 2 ^ 1010)) = PlusInf"
  by (simp add: cvt_ieee_double) (simp add: ieee_double_def round64_eval)

lemma tiny_rate_reciprocal_ieee_double:
  "fdiv ieee_double (cvt ieee_double 1) (Finite (1 / 2 ^ 1010)) = Finite (2 ^ 1010)"
  by (simp add: cvt_ieee_double) (simp add: ieee_double_def round64_eval)

text \<open>
  C3, as stated, fails on Windows for a very small rate. With a counter of 10 MHz and the
  rate \<open>2^-1010\<close>, \<open>SetInterval\<close> stores \<open>m_perSecond / r\<close> ticks, which overflows to
  \<open>+infinity\<close>, and \<open>GetInterval\<close> returns \<open>+infinity\<close>, while \<open>1 / r\<close> is the finite double
  \<open>2^1010\<close>.
\<close>

theorem SetInterval_tiny_rate_win:
  "map_sum id (GetInterval_win ieee_double)
     (SetInterval_win ieee_double True (Finite (1 / 2 ^ 1010))
        (PerformanceTimer98_win ieee_double True 10000000)) = Inr PlusInf
   \<and> fdiv ieee_double (cvt ieee_double 1) (Finite (1 / 2 ^ 1010)) = Finite (2 ^ 1010)"
proof -
  define r where "r = Finite (1 / 2 ^ 1010)"
  have d1: "fdiv ieee_double (cvt ieee_double 10000000) r = PlusInf"
    unfolding r_def by (rule tiny_rate_ieee_double)
  have d2: "fdiv ieee_double (cvt ieee_double 1) r = Finite (2 ^ 1010)"
    unfolding r_def by (rule tiny_rate_reciprocal_ieee_double)
  have d3: "fdiv ieee_double PlusInf (cvt ieee_double 10000000) = PlusInf"
    by (simp add: cvt_ieee_double) (simp add: ieee_double_def)
  have nz: "\<not> feq ieee_double r (cvt ieee_double 0)"
    unfolding r_def by (simp add: cvt_ieee_double) (simp add: ieee_double_def)
  have "map_sum id (GetInterval_win ieee_double)
      (SetInterval_win ieee_double True r (PerformanceTimer98_win ieee_double True 10000000))
      = Inr PlusInf"
    using nz by (simp add: SetInterval_win_def GetInterval_win_def PerformanceTimer98_win_def d1 d3)
  from this d2 show ?thesis
    unfolding r_def by (rule conjI)
qed

text \<open>
  C3, amended. After \<open>SetInterval(r)\<close> with \<open>r\<close> not equal to zero, of either sign and from
  any state, \<open>GetInterval\<close> returns the double quotient \<open>1 / r\<close> in the Linux version and in
  PerformanceTimer11, and \<open>(m_perSecond / r) / m_perSecond\<close> in the Windows version. In
  exact arithmetic all three are \<open>1 / r\<close> (on Windows for a positive counter frequency), so
  the Windows result is within rounding of \<open>1 / r\<close> as long as \<open>m_perSecond / r\<close> does not
  overflow.
\<close>

theorem SetInterval_then_GetInterval:
  assumes "\<not> feq fp r (cvt fp 0)"
    and "x \<noteq> 0"
    and "0 < m_perSecond_win w"
  shows "map_sum id GetInterval_lin (SetInterval_lin fp ndebug r l) = Inr (fdiv fp (cvt fp 1) r)
    \<and> map_sum id GetInterval_11 (SetInterval_11 fp ndebug r c) = Inr (fdiv fp (cvt fp 1) r)
    \<and> map_sum id (GetInterval_win fp) (SetInterval_win fp ndebug r wp)
        = Inr (fdiv fp (fdiv fp (cvt fp (m_perSecond_win wp)) r) (cvt fp (m_perSecond_win wp)))
    \<and> map_sum id GetInterval_lin (SetInterval_lin exact ndebug x le) = Inr (1 / x)
    \<and> map_sum id GetInterval_11 (SetInterval_11 exact ndebug x ce) = Inr (1 / x)
    \<and> map_sum id (GetInterval_win exact) (SetInterval_win exact ndebug x w) = Inr (1 / x)"
  using assms
  by (simp add: SetInterval_win_def SetInterval_lin_def SetInterval_11_def GetInterval_win_def
      GetInterval_lin_def GetInterval_11_def exact_def)

theorem SetInterval_then_GetInterval_witness:
  "map_sum id GetInterval_11 (SetInterval_11 exact False 30 (PerformanceTimer11 exact)) = Inr (1 / 30)
   \<and> map_sum id GetInterval_lin (SetInterval_lin exact False (- 4) (PerformanceTimer98_lin exact))
       = Inr (- 1 / 4)
   \<and> map_sum id (GetInterval_win exact)
        (SetInterval_win exact False 30 (PerformanceTimer98_win exact True 10000000)) = Inr (1 / 30)"
proof -
  have a: "\<not> feq exact 30 (cvt exact 0)" and a': "\<not> feq exact (- 4) (cvt exact 0)"
    by (simp_all add: exact_def)
  have b: "(30::real) \<noteq> 0" by simp
  have f: "0 < m_perSecond_win (PerformanceTimer98_win exact True 10000000)"
    by (simp add: PerformanceTimer98_win_def)
  from SetInterval_then_GetInterval [OF a b f, where ndebug = False
      and l = "PerformanceTimer98_lin exact" and c = "PerformanceTimer11 exact"
      and wp = "PerformanceTimer98_win exact True 10000000"
      and le = "PerformanceTimer98_lin exact" and ce = "PerformanceTimer11 exact"]
    SetInterval_then_GetInterval [OF a' b f, where ndebug = False
      and l = "PerformanceTimer98_lin exact" and c = "PerformanceTimer11 exact"
      and wp = "PerformanceTimer98_win exact True 10000000"
      and le = "PerformanceTimer98_lin exact" and ce = "PerformanceTimer11 exact"]
  show ?thesis by (simp add: exact_def)
qed

section \<open>Negative rates\<close>

lemma negative_rate_exact:
  assumes "r < 0"
    and "0 < m_perSecond_win w"
    and "s \<le> e"
    and "usecs ts \<le> usecs te"
  shows "SetInterval_win exact ndebug r w
       = Inr (w\<lparr>m_interval_win := real_of_int (m_perSecond_win w) / r\<rparr>)
    \<and> GetInterval_win exact (w\<lparr>m_interval_win := real_of_int (m_perSecond_win w) / r\<rparr>) = 1 / r
    \<and> SetInterval_lin exact ndebug r l = Inr (l\<lparr>m_interval_lin := 1 / r\<rparr>)
    \<and> GetInterval_lin (l\<lparr>m_interval_lin := 1 / r\<rparr>) = 1 / r
    \<and> SetInterval_11 exact ndebug r c = Inr (c\<lparr>m_interval_11 := 1 / r\<rparr>)
    \<and> GetInterval_11 (c\<lparr>m_interval_11 := 1 / r\<rparr>) = 1 / r
    \<and> 1 / r < 0
    \<and> IntervalHasElapsed_win exact
        (w\<lparr>m_interval_win := real_of_int (m_perSecond_win w) / r,
           m_startTime_win := s, m_stopTime_win := e\<rparr>)
    \<and> IntervalHasElapsed_lin exact
        (l\<lparr>m_interval_lin := 1 / r, m_startTime_lin := ts, m_stopTime_lin := te\<rparr>)
    \<and> IntervalHasElapsed_11 exact
        (c\<lparr>m_interval_11 := 1 / r, m_startTime_11 := s, m_stopTime_11 := e\<rparr>)"
proof -
  have set: "SetInterval_win exact ndebug r w
       = Inr (w\<lparr>m_interval_win := real_of_int (m_perSecond_win w) / r\<rparr>)
    \<and> GetInterval_win exact (w\<lparr>m_interval_win := real_of_int (m_perSecond_win w) / r\<rparr>) = 1 / r
    \<and> SetInterval_lin exact ndebug r l = Inr (l\<lparr>m_interval_lin := 1 / r\<rparr>)
    \<and> GetInterval_lin (l\<lparr>m_interval_lin := 1 / r\<rparr>) = 1 / r
    \<and> SetInterval_11 exact ndebug r c = Inr (c\<lparr>m_interval_11 := 1 / r\<rparr>)
    \<and> GetInterval_11 (c\<lparr>m_interval_11 := 1 / r\<rparr>) = 1 / r
    \<and> 1 / r < 0"
    using assms(1,2)
    by (simp add: SetInterval_win_def SetInterval_lin_def SetInterval_11_def GetInterval_win_def
        GetInterval_lin_def GetInterval_11_def exact_def)
  have ticks: "real_of_int (m_perSecond_win w) / r < 0"
    using assms(1,2) by (simp add: divide_less_0_iff)
  have d: "0 \<le> real_of_int (e - s)"
    using assms(3) by simp
  have win: "IntervalHasElapsed_win exact
      (w\<lparr>m_interval_win := real_of_int (m_perSecond_win w) / r,
         m_startTime_win := s, m_stopTime_win := e\<rparr>)"
    using ticks d by (simp add: IntervalHasElapsed_win_def exact_def del: of_int_diff)
  have "0 \<le> real_of_int (usecs te - usecs ts) / 1000000"
    using assms(4) by simp
  with set have "1 / r \<le> real_of_int (usecs te - usecs ts) / 1000000"
    by linarith
  moreover have "IntervalHasElapsed_lin exact
      (l\<lparr>m_interval_lin := 1 / r, m_startTime_lin := ts, m_stopTime_lin := te\<rparr>)
      = (1 / r \<le> real_of_int (tv_sec (timersub te ts)) + real_of_int (tv_usec (timersub te ts)) / 1000000)"
    by (simp add: IntervalHasElapsed_lin_def exact_def Let_def)
  ultimately have lin: "IntervalHasElapsed_lin exact
      (l\<lparr>m_interval_lin := 1 / r, m_startTime_lin := ts, m_stopTime_lin := te\<rparr>)"
    by (simp only: timersub_seconds)
  from set have "1 / r * 1000000000 < 0"
    by (simp add: mult_less_0_iff)
  with d have "\<not> real_of_int (e - s) < 1 / r * 1000000000"
    by linarith
  moreover have "IntervalHasElapsed_11 exact
      (c\<lparr>m_interval_11 := 1 / r, m_startTime_11 := s, m_stopTime_11 := e\<rparr>)
      = (\<not> real_of_int (e - s) < 1 / r * 1000000000)"
    by (simp add: IntervalHasElapsed_11_def exact_def del: of_int_diff)
  ultimately have c11: "IntervalHasElapsed_11 exact
      (c\<lparr>m_interval_11 := 1 / r, m_startTime_11 := s, m_stopTime_11 := e\<rparr>)"
    by blast
  from set win lin c11 show ?thesis by simp
qed


lemma negative_rate_ieee_double:
  assumes a: "a < 0"
    and se: "s \<le> e"
    and f: "0 < m_perSecond_win w"
    and tv: "0 \<le> tv_usec ts" "tv_usec ts < 1000000" "0 \<le> tv_usec te" "tv_usec te < 1000000"
      "usecs ts \<le> usecs te"
  shows "SetInterval_win ieee_double ndebug (Finite a) w
       = Inr (w\<lparr>m_interval_win := fdiv ieee_double (cvt ieee_double (m_perSecond_win w)) (Finite a)\<rparr>)
    \<and> IntervalHasElapsed_win ieee_double
        (w\<lparr>m_interval_win := fdiv ieee_double (cvt ieee_double (m_perSecond_win w)) (Finite a),
           m_startTime_win := s, m_stopTime_win := e\<rparr>)
    \<and> SetInterval_lin ieee_double ndebug (Finite a) l = Inr (l\<lparr>m_interval_lin := round64 (1 / a)\<rparr>)
    \<and> IntervalHasElapsed_lin ieee_double
        (l\<lparr>m_interval_lin := round64 (1 / a), m_startTime_lin := ts, m_stopTime_lin := te\<rparr>)
    \<and> SetInterval_11 ieee_double ndebug (Finite a) c = Inr (c\<lparr>m_interval_11 := round64 (1 / a)\<rparr>)
    \<and> IntervalHasElapsed_11 ieee_double
        (c\<lparr>m_interval_11 := round64 (1 / a), m_startTime_11 := s, m_stopTime_11 := e\<rparr>)"
proof -
  from a have nz: "\<not> feq ieee_double (Finite a) (cvt ieee_double 0)"
    by (simp add: cvt_ieee_double) (simp add: ieee_double_def)
  from a have one: "fdiv ieee_double (cvt ieee_double 1) (Finite a) = round64 (1 / a)"
    by (simp add: cvt_ieee_double) (simp add: ieee_double_def)
  from a have "1 / a \<le> 0" by (simp add: divide_le_0_iff)
  then have v: "round64 (1 / a) = MinusInf \<or> (\<exists>y. round64 (1 / a) = Finite y \<and> y \<le> 0)"
    by (rule round64_nonpos)
  from se have d: "cvt ieee_double (e - s) = PlusInf \<or> (\<exists>z. cvt ieee_double (e - s) = Finite z \<and> 0 \<le> z)"
    by (intro cvt_ieee_double_nonneg) simp
  \<comment> \<open>Windows: the interval in ticks is not positive\<close>
  have ticks: "fdiv ieee_double (cvt ieee_double (m_perSecond_win w)) (Finite a) = MinusInf
      \<or> (\<exists>y. fdiv ieee_double (cvt ieee_double (m_perSecond_win w)) (Finite a) = Finite y \<and> y \<le> 0)"
  proof -
    from f have "cvt ieee_double (m_perSecond_win w) = PlusInf
        \<or> (\<exists>z. cvt ieee_double (m_perSecond_win w) = Finite z \<and> 0 \<le> z)"
      by (intro cvt_ieee_double_nonneg) simp
    then show ?thesis
    proof (elim disjE exE conjE)
      assume "cvt ieee_double (m_perSecond_win w) = PlusInf"
      with a show ?thesis by (simp add: ieee_double_def)
    next
      fix z assume z: "cvt ieee_double (m_perSecond_win w) = Finite z" "0 \<le> z"
      with a have "z / a \<le> 0" by (simp add: divide_le_0_iff)
      from round64_nonpos [OF this] z a show ?thesis by (simp add: ieee_double_def)
    qed
  qed
  have win: "IntervalHasElapsed_win ieee_double
      (w\<lparr>m_interval_win := fdiv ieee_double (cvt ieee_double (m_perSecond_win w)) (Finite a),
         m_startTime_win := s, m_stopTime_win := e\<rparr>)"
    using lt64_nonneg_nonpos(2) [OF d ticks]
    by (simp add: IntervalHasElapsed_win_def) (simp add: ieee_double_def)
  \<comment> \<open>Linux: the difference in seconds is not negative\<close>
  define df where "df = timersub te ts"
  from timersub_nonneg [OF tv] have sec: "0 \<le> tv_sec df" and usec: "0 \<le> tv_usec df"
    by (simp_all add: df_def)
  have secs: "fadd ieee_double (cvt ieee_double (tv_sec df))
        (fdiv ieee_double (cvt ieee_double (tv_usec df)) (cvt ieee_double 1000000)) = PlusInf
      \<or> (\<exists>z. fadd ieee_double (cvt ieee_double (tv_sec df))
        (fdiv ieee_double (cvt ieee_double (tv_usec df)) (cvt ieee_double 1000000)) = Finite z \<and> 0 \<le> z)"
  proof -
    have q: "fdiv ieee_double (cvt ieee_double (tv_usec df)) (cvt ieee_double 1000000) = PlusInf
        \<or> (\<exists>z. fdiv ieee_double (cvt ieee_double (tv_usec df)) (cvt ieee_double 1000000) = Finite z \<and> 0 \<le> z)"
      using cvt_ieee_double_nonneg [OF usec]
    proof (elim disjE exE conjE)
      assume "cvt ieee_double (tv_usec df) = PlusInf"
      then show ?thesis by (simp add: cvt_ieee_double_more) (simp add: ieee_double_def)
    next
      fix z assume z: "cvt ieee_double (tv_usec df) = Finite z" "0 \<le> z"
      then have "0 \<le> z / 1000000" by simp
      from round64_nonneg [OF this] z show ?thesis
        by (simp add: cvt_ieee_double_more) (simp add: ieee_double_def)
    qed
    from cvt_ieee_double_nonneg [OF sec] q show ?thesis
    proof (elim disjE exE conjE)
      fix x y assume "cvt ieee_double (tv_sec df) = Finite x" "0 \<le> x"
        "fdiv ieee_double (cvt ieee_double (tv_usec df)) (cvt ieee_double 1000000) = Finite y" "0 \<le> y"
      moreover from this have "0 \<le> x + y" by simp
      note round64_nonneg [OF this]
      ultimately show ?thesis by (simp add: ieee_double_def)
    qed (auto simp: ieee_double_def)
  qed
  have lin: "IntervalHasElapsed_lin ieee_double
      (l\<lparr>m_interval_lin := round64 (1 / a), m_startTime_lin := ts, m_stopTime_lin := te\<rparr>)"
    using lt64_nonneg_nonpos(2) [OF secs v]
    by (simp add: IntervalHasElapsed_lin_def Let_def df_def) (simp add: ieee_double_def)
  \<comment> \<open>PerformanceTimer11: the interval in nanoseconds is not positive\<close>
  have ns: "fmul ieee_double (round64 (1 / a)) (cvt ieee_double 1000000000) = MinusInf
      \<or> (\<exists>y. fmul ieee_double (round64 (1 / a)) (cvt ieee_double 1000000000) = Finite y \<and> y \<le> 0)"
    using v
  proof (elim disjE exE conjE)
    assume "round64 (1 / a) = MinusInf"
    then show ?thesis by (simp add: cvt_ieee_double_more) (simp add: ieee_double_def)
  next
    fix y assume y: "round64 (1 / a) = Finite y" "y \<le> 0"
    then have "y * 1000000000 \<le> 0" by simp
    from round64_nonpos [OF this] y show ?thesis
      by (simp add: cvt_ieee_double_more) (simp add: ieee_double_def)
  qed
  have c11: "IntervalHasElapsed_11 ieee_double
      (c\<lparr>m_interval_11 := round64 (1 / a), m_startTime_11 := s, m_stopTime_11 := e\<rparr>)"
    using lt64_nonneg_nonpos(1) [OF d ns]
    by (simp add: IntervalHasElapsed_11_def) (simp add: ieee_double_def)
  from nz one win lin c11 show ?thesis
    by (simp add: SetInterval_win_def SetInterval_lin_def SetInterval_11_def)
qed

text \<open>
  C6. A negative rate \<open>r\<close> passes the only test \<open>SetInterval\<close> makes (\<open>r == 0\<close>), in the
  debug build too, and the interval becomes \<open>1 / r\<close>, a negative number of seconds (on
  Windows \<open>m_perSecond / r\<close> ticks). Whatever \<open>Start\<close> and \<open>Stop\<close> record afterwards, if the
  stop instant is not before the start instant then \<open>IntervalHasElapsed\<close> is true:
  in exact arithmetic and in binary64. On Windows the counter frequency is positive; on
  Linux the instants are \<open>timeval\<close>s as \<open>gettimeofday\<close> gives them, with the microseconds
  below one million.
\<close>

theorem negative_rate_is_accepted:
  assumes "r < 0"
    and "0 < m_perSecond_win w"
    and "0 < m_perSecond_win wd"
    and "s \<le> e"
    and "0 \<le> tv_usec ts" and "tv_usec ts < 1000000"
    and "0 \<le> tv_usec te" and "tv_usec te < 1000000"
    and "usecs ts \<le> usecs te"
  shows "SetInterval_win exact ndebug r w
       = Inr (w\<lparr>m_interval_win := real_of_int (m_perSecond_win w) / r\<rparr>)
    \<and> GetInterval_win exact (w\<lparr>m_interval_win := real_of_int (m_perSecond_win w) / r\<rparr>) = 1 / r
    \<and> SetInterval_lin exact ndebug r l = Inr (l\<lparr>m_interval_lin := 1 / r\<rparr>)
    \<and> GetInterval_lin (l\<lparr>m_interval_lin := 1 / r\<rparr>) = 1 / r
    \<and> SetInterval_11 exact ndebug r c = Inr (c\<lparr>m_interval_11 := 1 / r\<rparr>)
    \<and> GetInterval_11 (c\<lparr>m_interval_11 := 1 / r\<rparr>) = 1 / r
    \<and> 1 / r < 0
    \<and> IntervalHasElapsed_win exact
        (w\<lparr>m_interval_win := real_of_int (m_perSecond_win w) / r,
           m_startTime_win := s, m_stopTime_win := e\<rparr>)
    \<and> IntervalHasElapsed_lin exact
        (l\<lparr>m_interval_lin := 1 / r, m_startTime_lin := ts, m_stopTime_lin := te\<rparr>)
    \<and> IntervalHasElapsed_11 exact
        (c\<lparr>m_interval_11 := 1 / r, m_startTime_11 := s, m_stopTime_11 := e\<rparr>)
    \<and> SetInterval_win ieee_double ndebug (Finite r) wd
       = Inr (wd\<lparr>m_interval_win := fdiv ieee_double (cvt ieee_double (m_perSecond_win wd)) (Finite r)\<rparr>)
    \<and> IntervalHasElapsed_win ieee_double
        (wd\<lparr>m_interval_win := fdiv ieee_double (cvt ieee_double (m_perSecond_win wd)) (Finite r),
           m_startTime_win := s, m_stopTime_win := e\<rparr>)
    \<and> SetInterval_lin ieee_double ndebug (Finite r) ld = Inr (ld\<lparr>m_interval_lin := round64 (1 / r)\<rparr>)
    \<and> IntervalHasElapsed_lin ieee_double
        (ld\<lparr>m_interval_lin := round64 (1 / r), m_startTime_lin := ts, m_stopTime_lin := te\<rparr>)
    \<and> SetInterval_11 ieee_double ndebug (Finite r) cd = Inr (cd\<lparr>m_interval_11 := round64 (1 / r)\<rparr>)
    \<and> IntervalHasElapsed_11 ieee_double
        (cd\<lparr>m_interval_11 := round64 (1 / r), m_startTime_11 := s, m_stopTime_11 := e\<rparr>)"
  using negative_rate_exact [OF assms(1,2,4,9), of ndebug l c]
    negative_rate_ieee_double [OF assms(1,4,3,5,6,7,8,9), of ndebug ld cd]
  by blast

theorem negative_rate_is_accepted_witness:
  "SetInterval_11 exact False (- 60) (PerformanceTimer11 exact)
     = Inr (PerformanceTimer11 exact\<lparr>m_interval_11 := 1 / (- 60)\<rparr>)
   \<and> IntervalHasElapsed_11 exact
        (PerformanceTimer11 exact\<lparr>m_interval_11 := 1 / (- 60), m_startTime_11 := 7, m_stopTime_11 := 7\<rparr>)
   \<and> IntervalHasElapsed_lin exact
        (PerformanceTimer98_lin exact
           \<lparr>m_interval_lin := 1 / (- 60), m_startTime_lin := \<lparr>tv_sec = 1, tv_usec = 999999\<rparr>,
             m_stopTime_lin := \<lparr>tv_sec = 2, tv_usec = 0\<rparr>\<rparr>)
   \<and> SetInterval_11 ieee_double False (Finite (- 60)) (PerformanceTimer11 ieee_double)
     = Inr (PerformanceTimer11 ieee_double\<lparr>m_interval_11 := round64 (1 / (- 60))\<rparr>)
   \<and> IntervalHasElapsed_11 ieee_double
        (PerformanceTimer11 ieee_double
           \<lparr>m_interval_11 := round64 (1 / (- 60)), m_startTime_11 := 7, m_stopTime_11 := 7\<rparr>)
   \<and> IntervalHasElapsed_lin ieee_double
        (PerformanceTimer98_lin ieee_double
           \<lparr>m_interval_lin := round64 (1 / (- 60)), m_startTime_lin := \<lparr>tv_sec = 1, tv_usec = 999999\<rparr>,
             m_stopTime_lin := \<lparr>tv_sec = 2, tv_usec = 0\<rparr>\<rparr>)"
proof -
  have r: "(- 60 :: real) < 0" by simp
  have f: "0 < m_perSecond_win (PerformanceTimer98_win exact True 10000000)"
    and fd: "0 < m_perSecond_win (PerformanceTimer98_win ieee_double True 10000000)"
    by (simp_all add: PerformanceTimer98_win_def)
  have i: "(7::int) \<le> 7" by simp
  have n: "0 \<le> tv_usec \<lparr>tv_sec = 1, tv_usec = 999999\<rparr>"
    "tv_usec \<lparr>tv_sec = 1, tv_usec = 999999\<rparr> < 1000000"
    "0 \<le> tv_usec \<lparr>tv_sec = 2, tv_usec = 0\<rparr>" "tv_usec \<lparr>tv_sec = 2, tv_usec = 0\<rparr> < 1000000"
    by simp_all
  have u: "usecs \<lparr>tv_sec = 1, tv_usec = 999999\<rparr> \<le> usecs \<lparr>tv_sec = 2, tv_usec = 0\<rparr>"
    by (simp add: usecs_def)
  from negative_rate_is_accepted [OF r f fd i n u, where ndebug = False
      and l = "PerformanceTimer98_lin exact" and c = "PerformanceTimer11 exact"
      and ld = "PerformanceTimer98_lin ieee_double" and cd = "PerformanceTimer11 ieee_double"]
  show ?thesis by blast
qed

section \<open>Right after Start\<close>

text \<open>
  C5. \<open>Start\<close> writes the clock reading into \<open>m_startTime\<close> and copies it into
  \<open>m_stopTime\<close>. The elapsed time is then exactly zero, and with a positive interval
  \<open>IntervalHasElapsed\<close> is false: in exact arithmetic, and in binary64 for an interval that
  is a positive double (at least \<open>2^-1074\<close>) or \<open>+infinity\<close>. On Windows the debug build asserts
  that the platform is supported, so the statement is about a \<open>Start\<close> that returns, and the
  elapsed time is a quotient by \<open>m_perMillisecond\<close>, which must not be zero.
\<close>

theorem after_Start:
  assumes "Start_win ndebug now w = Inr w'"
    and "0 < m_perSecond_win w"
    and "m_perMillisecond_win w \<noteq> 0"
    and "Start_win ndebug now wd = Inr wd'"
    and "m_perMillisecond_win wd = Finite p"
    and "p \<noteq> 0"
  shows "m_startTime_win w' = now \<and> m_stopTime_win w' = m_startTime_win w'
    \<and> GetElapsed_win exact w' = 0
    \<and> (0 < GetInterval_win exact w \<longrightarrow> \<not> IntervalHasElapsed_win exact w')
    \<and> m_startTime_lin (Start_lin tv l) = tv
    \<and> m_stopTime_lin (Start_lin tv l) = m_startTime_lin (Start_lin tv l)
    \<and> GetElapsed_lin exact (Start_lin tv l) = 0
    \<and> (0 < GetInterval_lin l \<longrightarrow> \<not> IntervalHasElapsed_lin exact (Start_lin tv l))
    \<and> m_startTime_11 (Start_11 n c) = n
    \<and> m_stopTime_11 (Start_11 n c) = m_startTime_11 (Start_11 n c)
    \<and> GetElapsed_11 exact (Start_11 n c) = 0
    \<and> (0 < GetInterval_11 c \<longrightarrow> \<not> IntervalHasElapsed_11 exact (Start_11 n c))
    \<and> GetElapsed_win ieee_double wd' = Finite 0
    \<and> GetElapsed_lin ieee_double (Start_lin tv ld) = Finite 0
    \<and> GetElapsed_11 ieee_double (Start_11 n cd) = Finite 0
    \<and> (0 < i \<longrightarrow> m_interval_win wd = Finite i \<longrightarrow> \<not> IntervalHasElapsed_win ieee_double wd')
    \<and> (m_interval_win wd = PlusInf \<longrightarrow> \<not> IntervalHasElapsed_win ieee_double wd')
    \<and> (0 < i \<longrightarrow> \<not> IntervalHasElapsed_lin ieee_double (Start_lin tv (ld\<lparr>m_interval_lin := Finite i\<rparr>)))
    \<and> \<not> IntervalHasElapsed_lin ieee_double (Start_lin tv (ld\<lparr>m_interval_lin := PlusInf\<rparr>))
    \<and> (pow2 (- 1074) \<le> i
        \<longrightarrow> \<not> IntervalHasElapsed_11 ieee_double (Start_11 n (cd\<lparr>m_interval_11 := Finite i\<rparr>)))
    \<and> \<not> IntervalHasElapsed_11 ieee_double (Start_11 n (cd\<lparr>m_interval_11 := PlusInf\<rparr>))"
proof -
  from assms(1) have w': "w' = w\<lparr>m_startTime_win := now, m_stopTime_win := now\<rparr>"
    by (simp add: Start_win_def split: if_splits)
  have win: "m_startTime_win w' = now \<and> m_stopTime_win w' = m_startTime_win w'
    \<and> GetElapsed_win exact w' = 0
    \<and> (0 < GetInterval_win exact w \<longrightarrow> \<not> IntervalHasElapsed_win exact w')"
    using assms(2)
    by (simp add: w' GetElapsed_win_def IntervalHasElapsed_win_def GetInterval_win_def exact_def
        zero_less_divide_iff)
  have lin: "m_startTime_lin (Start_lin tv l) = tv
    \<and> m_stopTime_lin (Start_lin tv l) = m_startTime_lin (Start_lin tv l)
    \<and> GetElapsed_lin exact (Start_lin tv l) = 0
    \<and> (0 < GetInterval_lin l \<longrightarrow> \<not> IntervalHasElapsed_lin exact (Start_lin tv l))"
    by (simp add: Start_lin_def GetElapsed_lin_def IntervalHasElapsed_lin_def GetInterval_lin_def
        timersub_self exact_def)
  have c11: "m_startTime_11 (Start_11 n c) = n
    \<and> m_stopTime_11 (Start_11 n c) = m_startTime_11 (Start_11 n c)
    \<and> GetElapsed_11 exact (Start_11 n c) = 0
    \<and> (0 < GetInterval_11 c \<longrightarrow> \<not> IntervalHasElapsed_11 exact (Start_11 n c))"
    by (simp add: Start_11_def GetElapsed_11_def IntervalHasElapsed_11_def GetInterval_11_def
        Milliseconds_def exact_def)
  from assms(4) have wd': "wd' = wd\<lparr>m_startTime_win := now, m_stopTime_win := now\<rparr>"
    by (simp add: Start_win_def split: if_splits)
  have win_d: "GetElapsed_win ieee_double wd' = Finite 0
    \<and> (0 < i \<longrightarrow> m_interval_win wd = Finite i \<longrightarrow> \<not> IntervalHasElapsed_win ieee_double wd')
    \<and> (m_interval_win wd = PlusInf \<longrightarrow> \<not> IntervalHasElapsed_win ieee_double wd')"
    using assms(5,6)
    by (simp add: wd' GetElapsed_win_def IntervalHasElapsed_win_def cvt_ieee_double)
      (simp add: ieee_double_def round64_def ge64_def)
  have lin_d: "GetElapsed_lin ieee_double (Start_lin tv ld) = Finite 0
    \<and> (0 < i \<longrightarrow> \<not> IntervalHasElapsed_lin ieee_double (Start_lin tv (ld\<lparr>m_interval_lin := Finite i\<rparr>)))
    \<and> \<not> IntervalHasElapsed_lin ieee_double (Start_lin tv (ld\<lparr>m_interval_lin := PlusInf\<rparr>))"
    by (simp add: Start_lin_def GetElapsed_lin_def IntervalHasElapsed_lin_def timersub_self
        cvt_ieee_double cvt_ieee_double_more)
      (simp add: ieee_double_def round64_def ge64_def)
  have el_d: "GetElapsed_11 ieee_double (Start_11 n cd) = Finite 0"
    by (simp add: Start_11_def GetElapsed_11_def Milliseconds_def cvt_ieee_double
        cvt_ieee_double_more)
      (simp add: ieee_double_def round64_def)
  have c11_d: "pow2 (- 1074) \<le> i
      \<longrightarrow> \<not> IntervalHasElapsed_11 ieee_double (Start_11 n (cd\<lparr>m_interval_11 := Finite i\<rparr>))"
  proof
    assume i: "pow2 (- 1074) \<le> i"
    have "pow2 (- 1074) \<le> 1 * pow2 (- 1074)" by simp
    also have "1 * pow2 (- 1074) \<le> 1000000000 * i"
      using i pow2_pos [of "- 1074"] by linarith
    finally have "pow2 (- 1074) \<le> i * 1000000000" by (simp add: mult.commute)
    from round64_pos [OF this]
    have "lt64 (Finite 0) (round64 (i * 1000000000))" by auto
    then show "\<not> IntervalHasElapsed_11 ieee_double (Start_11 n (cd\<lparr>m_interval_11 := Finite i\<rparr>))"
      by (simp add: Start_11_def IntervalHasElapsed_11_def cvt_ieee_double cvt_ieee_double_more)
        (simp add: ieee_double_def)
  qed
  have c11_d': "\<not> IntervalHasElapsed_11 ieee_double (Start_11 n (cd\<lparr>m_interval_11 := PlusInf\<rparr>))"
    by (simp add: Start_11_def IntervalHasElapsed_11_def cvt_ieee_double cvt_ieee_double_more)
      (simp add: ieee_double_def)
  from win lin c11 win_d lin_d el_d c11_d c11_d' show ?thesis by blast
qed

theorem after_Start_witness:
  "Start_win False 123456 (PerformanceTimer98_win exact True 10000000\<lparr>m_stopTime_win := 99\<rparr>)
     = Inr (PerformanceTimer98_win exact True 10000000
              \<lparr>m_startTime_win := 123456, m_stopTime_win := 123456\<rparr>)
   \<and> GetElapsed_win exact (PerformanceTimer98_win exact True 10000000
              \<lparr>m_startTime_win := 123456, m_stopTime_win := 123456\<rparr>) = 0
   \<and> 0 < GetInterval_win exact (PerformanceTimer98_win exact True 10000000\<lparr>m_stopTime_win := 99\<rparr>)
   \<and> \<not> IntervalHasElapsed_win exact (PerformanceTimer98_win exact True 10000000
              \<lparr>m_startTime_win := 123456, m_stopTime_win := 123456\<rparr>)
   \<and> 0 < GetInterval_11 (PerformanceTimer11 exact)
   \<and> \<not> IntervalHasElapsed_11 exact (Start_11 5 (PerformanceTimer11 exact))
   \<and> Start_win False 123456 (PerformanceTimer98_win ieee_double True 10000000)
     = Inr (PerformanceTimer98_win ieee_double True 10000000
              \<lparr>m_startTime_win := 123456, m_stopTime_win := 123456\<rparr>)
   \<and> GetElapsed_win ieee_double (PerformanceTimer98_win ieee_double True 10000000
              \<lparr>m_startTime_win := 123456, m_stopTime_win := 123456\<rparr>) = Finite 0
   \<and> \<not> IntervalHasElapsed_win ieee_double (PerformanceTimer98_win ieee_double True 10000000
              \<lparr>m_startTime_win := 123456, m_stopTime_win := 123456\<rparr>)
   \<and> \<not> IntervalHasElapsed_11 ieee_double
        (Start_11 5 (PerformanceTimer11 ieee_double\<lparr>m_interval_11 := Finite (1 / 64)\<rparr>))"
proof -
  let ?w = "PerformanceTimer98_win exact True 10000000\<lparr>m_stopTime_win := 99\<rparr>"
  let ?w' = "PerformanceTimer98_win exact True 10000000
      \<lparr>m_startTime_win := 123456, m_stopTime_win := 123456\<rparr>"
  let ?wd = "PerformanceTimer98_win ieee_double True 10000000"
  let ?wd' = "PerformanceTimer98_win ieee_double True 10000000
      \<lparr>m_startTime_win := 123456, m_stopTime_win := 123456\<rparr>"
  have s: "Start_win False 123456 ?w = Inr ?w'"
    by (simp add: Start_win_def IsSupportedPlatform_win_def PerformanceTimer98_win_def)
  have f: "0 < m_perSecond_win ?w" and p: "m_perMillisecond_win ?w \<noteq> 0"
    by (simp_all add: PerformanceTimer98_win_def exact_def)
  have sd: "Start_win False 123456 ?wd = Inr ?wd'"
    by (simp add: Start_win_def IsSupportedPlatform_win_def PerformanceTimer98_win_def)
  have pd: "m_perMillisecond_win ?wd = Finite 10000" and nz: "(10000::real) \<noteq> 0"
    by (simp_all add: win_default_fields)
  have g: "0 < GetInterval_win exact ?w"
    by (simp add: GetInterval_win_def PerformanceTimer98_win_def exact_def)
  have h: "0 < GetInterval_11 (PerformanceTimer11 exact)"
    by (simp add: GetInterval_11_def PerformanceTimer11_def exact_def)
  have iw: "m_interval_win ?wd = Finite (5726623061333333 / 34359738368)"
    and ip: "(0::real) < 5726623061333333 / 34359738368"
    by (simp_all add: win_default_fields)
  have small: "pow2 (- 1074) \<le> 1 / 64"
    by (simp add: pow2_def)
  from after_Start [OF s f p sd pd nz, where tv = "\<lparr>tv_sec = 0, tv_usec = 0\<rparr>"
      and l = "PerformanceTimer98_lin exact" and n = 5 and c = "PerformanceTimer11 exact"
      and ld = "PerformanceTimer98_lin ieee_double" and cd = "PerformanceTimer11 ieee_double"
      and i = "5726623061333333 / 34359738368"]
    after_Start [OF s f p sd pd nz, where tv = "\<lparr>tv_sec = 0, tv_usec = 0\<rparr>"
      and l = "PerformanceTimer98_lin exact" and n = 5 and c = "PerformanceTimer11 exact"
      and ld = "PerformanceTimer98_lin ieee_double" and cd = "PerformanceTimer11 ieee_double"
      and i = "1 / 64"]
    s sd g h iw ip small
  show ?thesis by blast
qed

section \<open>The frame of Stop\<close>

lemma run_lin_stops:
  "run_lin fp ndebug (map StopCall tvs) l = Inr (l\<lparr>m_stopTime_lin := last (m_stopTime_lin l # tvs)\<rparr>)"
  by (induction tvs arbitrary: l) (simp_all add: step_lin_def Stop_lin_def)

lemma run_11_stops:
  "run_11 fp ndebug (map StopCall ns) c = Inr (c\<lparr>m_stopTime_11 := last (m_stopTime_11 c # ns)\<rparr>)"
  by (induction ns arbitrary: c) (simp_all add: step_11_def Stop_11_def)

lemma run_win_stops:
  "run_win fp ndebug (map StopCall ns) w = Inr w' \<Longrightarrow>
     w' = w\<lparr>m_stopTime_win := last (m_stopTime_win w # ns)\<rparr>"
proof (induction ns arbitrary: w)
  case Nil
  then show ?case by simp
next
  case (Cons n ns)
  from Cons.prems have r: "run_win fp ndebug (map StopCall ns) (w\<lparr>m_stopTime_win := n\<rparr>) = Inr w'"
    by (simp add: step_win_def Stop_win_def split: if_splits)
  from Cons.IH [OF r] show ?case by simp
qed

text \<open>
  C8. \<open>Stop\<close> writes \<open>m_stopTime\<close> with the clock reading and nothing else: the start mark,
  the interval and (on Windows) the calibration data keep their values. A second \<open>Stop\<close>
  overwrites the first, and the elapsed time it gives is measured from the start mark that
  was there before both. After any number of \<open>Stop\<close> calls in a row the timer is the one
  before them with the last reading as its stop mark. On Windows the debug build asserts
  the platform is supported; the statement is about the calls that return.
\<close>

theorem Stop_writes_only_stopTime:
  assumes "Stop_win ndebug now w = Inr w'"
    and "Stop_win ndebug now2 w' = Inr w''"
    and "run_win fp ndebug (map StopCall ns) w = Inr wn"
  shows "w' = w\<lparr>m_stopTime_win := now\<rparr>
    \<and> m_startTime_win w' = m_startTime_win w \<and> m_interval_win w' = m_interval_win w
    \<and> m_stopTime_win w' = now
    \<and> w'' = w\<lparr>m_stopTime_win := now2\<rparr>
    \<and> GetElapsed_win fp w'' = fdiv fp (cvt fp (now2 - m_startTime_win w)) (m_perMillisecond_win w)
    \<and> wn = w\<lparr>m_stopTime_win := last (m_stopTime_win w # ns)\<rparr>
    \<and> m_startTime_lin (Stop_lin tv l) = m_startTime_lin l
    \<and> m_interval_lin (Stop_lin tv l) = m_interval_lin l
    \<and> m_stopTime_lin (Stop_lin tv l) = tv
    \<and> Stop_lin tv2 (Stop_lin tv l) = Stop_lin tv2 l
    \<and> run_lin fp ndebug (map StopCall tvs) l = Inr (l\<lparr>m_stopTime_lin := last (m_stopTime_lin l # tvs)\<rparr>)
    \<and> m_startTime_11 (Stop_11 n c) = m_startTime_11 c
    \<and> m_interval_11 (Stop_11 n c) = m_interval_11 c
    \<and> m_stopTime_11 (Stop_11 n c) = n
    \<and> Stop_11 n2 (Stop_11 n c) = Stop_11 n2 c
    \<and> GetElapsed_11 fp (Stop_11 n2 (Stop_11 n c)) = Milliseconds fp (n2 - m_startTime_11 c)
    \<and> run_11 fp ndebug (map StopCall ns) c = Inr (c\<lparr>m_stopTime_11 := last (m_stopTime_11 c # ns)\<rparr>)"
proof -
  from assms(1) have w': "w' = w\<lparr>m_stopTime_win := now\<rparr>"
    by (simp add: Stop_win_def split: if_splits)
  from assms(2) have w'': "w'' = w'\<lparr>m_stopTime_win := now2\<rparr>"
    by (simp add: Stop_win_def split: if_splits)
  note wn = run_win_stops [OF assms(3)]
  have "w' = w\<lparr>m_stopTime_win := now\<rparr>
    \<and> m_startTime_win w' = m_startTime_win w \<and> m_interval_win w' = m_interval_win w
    \<and> m_stopTime_win w' = now
    \<and> w'' = w\<lparr>m_stopTime_win := now2\<rparr>
    \<and> GetElapsed_win fp w'' = fdiv fp (cvt fp (now2 - m_startTime_win w)) (m_perMillisecond_win w)
    \<and> m_startTime_lin (Stop_lin tv l) = m_startTime_lin l
    \<and> m_interval_lin (Stop_lin tv l) = m_interval_lin l
    \<and> m_stopTime_lin (Stop_lin tv l) = tv
    \<and> Stop_lin tv2 (Stop_lin tv l) = Stop_lin tv2 l
    \<and> m_startTime_11 (Stop_11 n c) = m_startTime_11 c
    \<and> m_interval_11 (Stop_11 n c) = m_interval_11 c
    \<and> m_stopTime_11 (Stop_11 n c) = n
    \<and> Stop_11 n2 (Stop_11 n c) = Stop_11 n2 c
    \<and> GetElapsed_11 fp (Stop_11 n2 (Stop_11 n c)) = Milliseconds fp (n2 - m_startTime_11 c)"
    by (simp add: w' w'' GetElapsed_win_def Stop_lin_def Stop_11_def GetElapsed_11_def)
  with wn run_lin_stops [of fp ndebug tvs l] run_11_stops [of fp ndebug ns c] show ?thesis
    by blast
qed

theorem Stop_writes_only_stopTime_witness:
  "Stop_win False 170000 (PerformanceTimer98_win exact True 10000000)
     = Inr (PerformanceTimer98_win exact True 10000000\<lparr>m_stopTime_win := 170000\<rparr>)
   \<and> Stop_win False 250000 (PerformanceTimer98_win exact True 10000000\<lparr>m_stopTime_win := 170000\<rparr>)
     = Inr (PerformanceTimer98_win exact True 10000000\<lparr>m_stopTime_win := 250000\<rparr>)
   \<and> run_win exact False (map StopCall [170000, 250000]) (PerformanceTimer98_win exact True 10000000)
     = Inr (PerformanceTimer98_win exact True 10000000\<lparr>m_stopTime_win := 250000\<rparr>)
   \<and> GetElapsed_win exact
        (PerformanceTimer98_win exact True 10000000\<lparr>m_stopTime_win := 250000\<rparr>) = 25"
proof -
  let ?w = "PerformanceTimer98_win exact True 10000000"
  have 1: "Stop_win False 170000 ?w = Inr (?w\<lparr>m_stopTime_win := 170000\<rparr>)"
    by (simp add: Stop_win_def IsSupportedPlatform_win_def PerformanceTimer98_win_def)
  have 2: "Stop_win False 250000 (?w\<lparr>m_stopTime_win := 170000\<rparr>)
      = Inr (?w\<lparr>m_stopTime_win := 250000\<rparr>)"
    by (simp add: Stop_win_def IsSupportedPlatform_win_def PerformanceTimer98_win_def)
  have 3: "run_win exact False (map StopCall [170000, 250000]) ?w
      = Inr (?w\<lparr>m_stopTime_win := 250000\<rparr>)"
    by (simp add: step_win_def Stop_win_def IsSupportedPlatform_win_def PerformanceTimer98_win_def)
  have "GetElapsed_win exact (?w\<lparr>m_stopTime_win := 250000\<rparr>)
      = fdiv exact (cvt exact (250000 - m_startTime_win ?w)) (m_perMillisecond_win ?w)"
    using Stop_writes_only_stopTime [OF 1 2 3, where l = "PerformanceTimer98_lin exact"
        and c = "PerformanceTimer11 exact" and tv = "\<lparr>tv_sec = 0, tv_usec = 0\<rparr>"
        and ?tv2.0 = "\<lparr>tv_sec = 0, tv_usec = 0\<rparr>" and n = 0 and ?n2.0 = 0 and tvs = "[]"]
    by simp
  then have "GetElapsed_win exact (?w\<lparr>m_stopTime_win := 250000\<rparr>) = 25"
    by (simp add: PerformanceTimer98_win_def exact_def)
  with 1 2 3 show ?thesis by simp
qed

section \<open>Has the interval elapsed?\<close>

text \<open>
  An interval that is not a number (after \<open>SetInterval\<close> with a NaN) is the one stored value
  on which the variants disagree: the \<open>>=\<close> of two doubles is false, the \<open>>=\<close> of two
  durations is \<open>!(a < b)\<close> and true.
\<close>

lemma cmp_NaN: "\<not> lt64 x NaN" "\<not> lt64 NaN x" "\<not> eq64 x NaN" "mul64 NaN x = NaN"
  by (cases x; simp)+

lemma IntervalHasElapsed_NaN:
  "\<not> IntervalHasElapsed_win ieee_double (w\<lparr>m_interval_win := NaN\<rparr>)
   \<and> \<not> IntervalHasElapsed_lin ieee_double (l\<lparr>m_interval_lin := NaN\<rparr>)
   \<and> IntervalHasElapsed_11 ieee_double (c\<lparr>m_interval_11 := NaN\<rparr>)"
  by (simp add: IntervalHasElapsed_win_def IntervalHasElapsed_lin_def IntervalHasElapsed_11_def
      Let_def ieee_double_def ge64_def cmp_NaN)



section \<open>Remaining time\<close>

text \<open>\<open>16.666666666666668\<close>, the double above \<open>50 / 3\<close>.\<close>

lemma win_default_interval_ms:
  "fsub ieee_double
     (fmul ieee_double (GetInterval_win ieee_double (PerformanceTimer98_win ieee_double True 10000000))
        (cvt ieee_double 1000))
     (GetElapsed_win ieee_double (PerformanceTimer98_win ieee_double True 10000000))
   = Finite (4691249611844267 / 281474976710656)"
  apply (simp add: GetInterval_win_def GetElapsed_win_def win_default_fields)
  apply (simp add: PerformanceTimer98_win_def cvt_ieee_double)
  apply (simp add: ieee_double_def sub64_def round64_eval)
  done

lemma GetRemaining_win_exact:
  assumes "m_perSecond_win w \<noteq> 0"
    and "m_perMillisecond_win w = real_of_int (m_perSecond_win w) / 1000"
  shows "GetRemaining_win exact w = GetInterval_win exact w * 1000 - GetElapsed_win exact w"
  using assms
  by (simp add: GetRemaining_win_def GetInterval_win_def GetElapsed_win_def exact_def field_simps)

text \<open>
  C1, as stated, fails on Windows. A timer that has just been constructed on a machine
  whose counter runs at 10 MHz holds the interval \<open>10^7 / 60.0\<close> in ticks. \<open>GetRemaining\<close>
  divides it by \<open>m_perMillisecond\<close> and returns \<open>16.666666666666664\<close>;
  \<open>GetInterval() * 1000 - GetElapsed()\<close> divides it by \<open>m_perSecond\<close>, multiplies by 1000 and
  gives \<open>16.666666666666668\<close>.
\<close>

theorem GetRemaining_win_rounds_differently:
  "GetRemaining_win ieee_double (PerformanceTimer98_win ieee_double True 10000000)
   \<noteq> fsub ieee_double
       (fmul ieee_double (GetInterval_win ieee_double (PerformanceTimer98_win ieee_double True 10000000))
          (cvt ieee_double 1000))
       (GetElapsed_win ieee_double (PerformanceTimer98_win ieee_double True 10000000))"
  by (simp only: win_default_remaining win_default_interval_ms) simp

text \<open>
  C1, amended. In the Linux version and in PerformanceTimer11, \<open>GetRemaining()\<close> is the
  double \<open>GetInterval() * 1000 - GetElapsed()\<close> in every state and whatever the rounding of
  the operations: it is computed by those very operations. In the Windows version the two
  are equal in exact arithmetic, in every state a sequence of calls reaches from the
  constructor on a machine whose counter has a positive frequency; in \<open>double\<close> they
  agree up to rounding.
\<close>

theorem GetRemaining_is_interval_minus_elapsed:
  assumes "0 < freq"
    and "run_win exact ndebug cs (PerformanceTimer98_win exact ok freq) = Inr w"
  shows "GetRemaining_lin fp l
       = fsub fp (fmul fp (GetInterval_lin l) (cvt fp 1000)) (GetElapsed_lin fp l)
    \<and> GetRemaining_11 fp c
       = fsub fp (fmul fp (GetInterval_11 c) (cvt fp 1000)) (GetElapsed_11 fp c)
    \<and> GetRemaining_win exact w = GetInterval_win exact w * 1000 - GetElapsed_win exact w"
proof -
  from run_win_calibration [OF assms(2)] assms(1)
  have "m_perSecond_win w \<noteq> 0"
    and "m_perMillisecond_win w = real_of_int (m_perSecond_win w) / 1000"
    by (simp_all add: PerformanceTimer98_win_def exact_def)
  then have "GetRemaining_win exact w = GetInterval_win exact w * 1000 - GetElapsed_win exact w"
    by (rule GetRemaining_win_exact)
  then show ?thesis
    by (simp add: GetRemaining_lin_def GetInterval_lin_def GetRemaining_11_def GetInterval_11_def
        GetElapsed_11_def)
qed

theorem GetRemaining_is_interval_minus_elapsed_witness:
  "run_win exact False [SetIntervalCall 30, StartCall 100, StopCall 200100]
       (PerformanceTimer98_win exact True 10000000)
     = Inr (PerformanceTimer98_win exact True 10000000
          \<lparr>m_startTime_win := 100, m_stopTime_win := 200100, m_interval_win := 10000000 / 30\<rparr>)
   \<and> GetRemaining_win exact (PerformanceTimer98_win exact True 10000000
          \<lparr>m_startTime_win := 100, m_stopTime_win := 200100, m_interval_win := 10000000 / 30\<rparr>)
     = GetInterval_win exact (PerformanceTimer98_win exact True 10000000
          \<lparr>m_startTime_win := 100, m_stopTime_win := 200100, m_interval_win := 10000000 / 30\<rparr>) * 1000
       - GetElapsed_win exact (PerformanceTimer98_win exact True 10000000
          \<lparr>m_startTime_win := 100, m_stopTime_win := 200100, m_interval_win := 10000000 / 30\<rparr>)
   \<and> GetElapsed_win exact (PerformanceTimer98_win exact True 10000000
          \<lparr>m_startTime_win := 100, m_stopTime_win := 200100, m_interval_win := 10000000 / 30\<rparr>) = 20"
proof -
  let ?w = "PerformanceTimer98_win exact True 10000000
      \<lparr>m_startTime_win := 100, m_stopTime_win := 200100, m_interval_win := 10000000 / 30\<rparr>"
  have f: "(0::int) < 10000000" by simp
  have r: "run_win exact False [SetIntervalCall 30, StartCall 100, StopCall 200100]
      (PerformanceTimer98_win exact True 10000000) = Inr ?w"
    by (simp add: step_win_def SetInterval_win_def Start_win_def Stop_win_def
        IsSupportedPlatform_win_def PerformanceTimer98_win_def exact_def)
  have e: "GetElapsed_win exact ?w = 20"
    by (simp add: GetElapsed_win_def PerformanceTimer98_win_def exact_def)
  from GetRemaining_is_interval_minus_elapsed [OF f r, where fp = exact
      and l = "PerformanceTimer98_lin exact" and c = "PerformanceTimer11 exact"]
  have "GetRemaining_win exact ?w = GetInterval_win exact ?w * 1000 - GetElapsed_win exact ?w"
    by simp
  with r e show ?thesis by simp
qed

section \<open>The three variants side by side\<close>










end
